theory Spec2Isabelle
  imports Complex_Main
begin

section \<open>Common Python values\<close>

text \<open>
  Exceptions raised by the modelled functions are values: a function that can raise
  returns \<open>py_error + 'a\<close>, with \<open>Inl\<close> carrying the exception class.
\<close>

datatype py_error =
    ValueError | TypeError | KeyError | IndexError | UnboundLocalError
  | ConstraintMismatchError | ImportError | OverflowError

section \<open>MLR models: checks of datasets and cubes\<close>

text \<open>
  Source: \<open>esmvaltool/diag_scripts/mlr/models/__init__.py\<close>.

  A dataset is a metadata dictionary; the checks read its keys \<open>tag\<close>, \<open>var_type\<close> and
  \<open>units\<close> only. The part of the \<open>MLRModel\<close> object that the checks read is the record
  \<open>mlr_model\<close>: the two configuration options (read with \<open>cfg.get\<close>, so that an absent
  option is false), the units of the label and the units of the features (a pandas
  series indexed by tag, hence a map; indexing it with an unknown tag raises KeyError).
  Units are \<open>cf_units.Unit\<close> objects, an external type: \<open>'u\<close>, with the constructor
  \<open>Unit\<close> a parameter that gives \<open>None\<close> where \<open>cf_units\<close> raises ValueError for a
  string it cannot parse.
\<close>

record dataset =
  ds_tag :: string
  ds_var_type :: string
  ds_units :: string

record 'u mlr_model =
  accept_only_scalar_data :: bool
  allow_missing_features :: bool
  label_units :: 'u
  features_units :: "string \<rightharpoonup> 'u"

text \<open>
  \<open>select_metadata\<close> is imported from \<open>esmvaltool.diag_scripts.shared\<close>: it keeps, in
  order, the datasets whose attributes equal all the given keyword arguments.
\<close>

definition select_metadata :: "dataset list \<Rightarrow> string \<Rightarrow> string \<Rightarrow> dataset list" where
  "select_metadata datasets tag var_type =
     filter (\<lambda>d. ds_tag d = tag \<and> ds_var_type d = var_type) datasets"

text \<open>\<open>MLRModel._check_dataset\<close>; the result \<open>Inr None\<close> is Python's \<open>return None\<close>.\<close>

definition check_dataset ::
  "(string \<Rightarrow> 'u option) \<Rightarrow> 'u mlr_model \<Rightarrow> dataset list \<Rightarrow> string \<Rightarrow> string
     \<Rightarrow> py_error + dataset option" where
  "check_dataset Unit m datasets0 var_type tag =
     (let datasets = select_metadata datasets0 tag var_type in
      if datasets = [] then
        (if var_type = ''prediction_input_error'' then Inr None
         else if var_type = ''prediction_reference'' then Inr None
         else if var_type = ''label'' then Inl ValueError
         else if \<not> allow_missing_features m then Inl ValueError
         else Inr None)
      else if length datasets > 1 then Inl ValueError
      else
        (case (if var_type = ''label'' then Inr (label_units m)
               else (case features_units m tag of
                       None \<Rightarrow> Inl KeyError
                     | Some u \<Rightarrow> Inr u)) of
           Inl e \<Rightarrow> Inl e
         | Inr units \<Rightarrow>
             (case Unit (ds_units (hd datasets)) of
                None \<Rightarrow> Inl ValueError
              | Some u \<Rightarrow>
                  if units \<noteq> u then Inl ValueError
                  else Inr (Some (hd datasets)))))"

text \<open>
  The cubes of the MLR model: the checks read the shape and the dimension coordinates
  (name, shape and points of each).
\<close>

record coord =
  coord_name :: string
  coord_shape :: "nat list"
  coord_points :: "real list"

record mlr_cube =
  cube_shape :: "nat list"
  dim_coords :: "coord list"

datatype check_warning = CoordinatesDiffer | PointsDiffer string

text \<open>
  \<open>numpy.allclose\<close> with its default tolerances: every pair of points satisfies
  \<open>|a - b| \<le> atol + rtol * |b|\<close>, with \<open>atol = 1e-8\<close> and \<open>rtol = 1e-5\<close>.
\<close>

definition allclose :: "real list \<Rightarrow> real list \<Rightarrow> bool" where
  "allclose xs ys =
     list_all2 (\<lambda>a b. \<bar>a - b\<bar> \<le> 1 / 10 ^ 8 + (1 / 10 ^ 5) * \<bar>b\<bar>) xs ys"

definition coords_str :: "coord list \<Rightarrow> (string \<times> nat list) list" where
  "coords_str cs = map (\<lambda>c. (coord_name c, coord_shape c)) cs"

text \<open>
  \<open>MLRModel._check_cube_dimensions\<close>. Apart from the two \<open>raise\<close> statements the
  function only logs warnings; the result \<open>Inr ws\<close> is a normal return after the
  warnings \<open>ws\<close>.
\<close>

definition check_cube_dimensions ::
  "'u mlr_model \<Rightarrow> mlr_cube \<Rightarrow> mlr_cube option \<Rightarrow> py_error + check_warning list" where
  "check_cube_dimensions m cube ref_cube =
     (if accept_only_scalar_data m then
        (if cube_shape cube \<notin> set [[], [1]] then Inl ValueError else Inr [])
      else
        (case ref_cube of
           None \<Rightarrow> Inr []
         | Some ref \<Rightarrow>
             if cube_shape cube \<noteq> cube_shape ref then Inl ValueError
             else if coords_str (dim_coords cube) \<noteq> coords_str (dim_coords ref)
               then Inr [CoordinatesDiffer]
             else Inr (concat (map (\<lambda>(c, r).
                         if \<not> allclose (coord_points c) (coord_points r)
                         then [PointsDiffer (coord_name c)] else [])
                       (zip (dim_coords cube) (dim_coords ref))))))"

section \<open>Prediction keyword arguments\<close>

text \<open>
  Sources: \<open>AdvancedTransformedTargetRegressor.predict\<close> in
  \<open>esmvaltool/diag_scripts/mlr/__init__.py\<close> and \<open>MLRModel.predict\<close> in
  \<open>esmvaltool/diag_scripts/mlr/models/__init__.py\<close>.

  Keyword arguments are a dictionary from names to Python values; \<open>truthy\<close> is the
  truth value Python gives a value in a condition.
\<close>

datatype pyval = PyNone | PyBool bool | PyInt int | PyStr string

fun truthy :: "pyval \<Rightarrow> bool" where
  "truthy PyNone = False"
| "truthy (PyBool b) = b"
| "truthy (PyInt i) = (i \<noteq> 0)"
| "truthy (PyStr s) = (s \<noteq> [])"

type_synonym kwargs = "string \<rightharpoonup> pyval"

text \<open>\<open>dict.pop(key, default)\<close>: the value and the dictionary without the key.\<close>

definition pop_default :: "kwargs \<Rightarrow> string \<Rightarrow> pyval \<Rightarrow> pyval \<times> kwargs" where
  "pop_default kw k d = (case kw k of None \<Rightarrow> (d, kw) | Some v \<Rightarrow> (v, kw(k := None)))"

text \<open>
  Arrays of one dimension, and of two dimensions with the number of columns kept (the
  shape of an array without rows still has it). The numbers are reals: rounding of
  floating-point arithmetic is not modelled.
\<close>

datatype ndarray = Arr1 "real list" | Arr2 nat "real list list"

datatype predict_out = Single ndarray | WithErr ndarray ndarray

text \<open>\<open>a.reshape(-1, 1)\<close>, \<open>a.squeeze(axis=1)\<close> and the in-place \<open>a *= a\<close>.\<close>

definition reshape_column :: "real list \<Rightarrow> ndarray" where
  "reshape_column ps = Arr2 1 (map (\<lambda>p. [p]) ps)"

fun squeeze_axis1 :: "ndarray \<Rightarrow> ndarray" where
  "squeeze_axis1 (Arr2 n rows) = Arr1 (map hd rows)"
| "squeeze_axis1 (Arr1 ps) = Arr1 ps"

fun imul_self :: "ndarray \<Rightarrow> ndarray" where
  "imul_self (Arr1 ys) = Arr1 (map (\<lambda>y. y * y) ys)"
| "imul_self (Arr2 n rows) = Arr2 n (map (map (\<lambda>y. y * y)) rows)"

text \<open>
  The in-place \<open>y_err *= scale**2\<close> with \<open>scale\<close> an array of one dimension: numpy
  broadcasts a scale of length one, or of the length of the last axis, and raises
  ValueError for any other length.
\<close>

fun imul_scale_sq :: "ndarray \<Rightarrow> real list \<Rightarrow> py_error + ndarray" where
  "imul_scale_sq (Arr1 ys) sc =
     (if length sc = 1 then Inr (Arr1 (map (\<lambda>y. y * (hd sc)\<^sup>2) ys))
      else if length sc = length ys then Inr (Arr1 (map2 (\<lambda>y s. y * s\<^sup>2) ys sc))
      else Inl ValueError)"
| "imul_scale_sq (Arr2 n rows) sc =
     (if length sc = 1 then Inr (Arr2 n (map (map (\<lambda>y. y * (hd sc)\<^sup>2)) rows))
      else if length sc = n then Inr (Arr2 n (map (\<lambda>row. map2 (\<lambda>y s. y * s\<^sup>2) row sc) rows))
      else Inl ValueError)"

text \<open>
  The fitted object: \<open>fitted_regressor\<close> is the \<open>predict\<close> method of the attribute
  \<open>regressor_\<close> (\<open>None\<close> before fitting, where \<open>check_is_fitted\<close> raises), called with
  the input data and the keyword arguments; \<open>inverse_transform\<close> and \<open>fitted_scale\<close>
  (the attribute \<open>scale_\<close>) belong to the fitted target transformer \<open>transformer_\<close>. The regressor and the transformer are objects of the
  machine-learning library, hence parameters.
\<close>

record 'x target_regressor =
  fitted_regressor :: "('x \<Rightarrow> kwargs \<Rightarrow> predict_out) option"
  inverse_transform :: "ndarray \<Rightarrow> ndarray"
  fitted_scale :: "real list option"
  training_dim :: nat

datatype predict_error = NotFittedError | Py py_error

text \<open>
  \<open>AdvancedTransformedTargetRegressor.predict\<close>. A call of the regressor with a
  keyword given twice is a TypeError; reading \<open>ndim\<close> of a pair, or unpacking a
  single array into a pair, is reported as a TypeError as well.
\<close>

definition att_predict ::
  "'x target_regressor \<Rightarrow> 'x \<Rightarrow> bool \<Rightarrow> kwargs \<Rightarrow> predict_error + predict_out" where
  "att_predict self x_data always_return_1d predict_kwargs0 =
     (case fitted_regressor self of
        None \<Rightarrow> Inl NotFittedError
      | Some reg \<Rightarrow>
          (let (return_var0, kw1) = pop_default predict_kwargs0 ''return_var'' (PyBool False);
               (return_cov0, predict_kwargs) = pop_default kw1 ''return_cov'' (PyBool False);
               return_var = truthy return_var0;
               return_cov = (if return_var \<and> truthy return_cov0 then False
                             else truthy return_cov0)
           in case reg x_data predict_kwargs of
                WithErr _ _ \<Rightarrow> Inl (Py TypeError)
              | Single pred \<Rightarrow>
                  (let pred_trans0 = (case pred of
                           Arr1 ps \<Rightarrow> inverse_transform self (reshape_column ps)
                         | Arr2 _ _ \<Rightarrow> inverse_transform self pred);
                       squeeze0 = (case pred_trans0 of Arr2 n _ \<Rightarrow> n = 1 | Arr1 _ \<Rightarrow> False);
                       squeeze = (if \<not> always_return_1d
                                  then squeeze0 \<and> training_dim self = 1 else squeeze0);
                       pred_trans = (if squeeze then squeeze_axis1 pred_trans0 else pred_trans0)
                   in if \<not> (return_var \<or> return_cov) then Inr (Single pred_trans)
                      else
                        (case (if return_var then
                                 (if ''return_std'' \<in> dom predict_kwargs then Inl (Py TypeError)
                                  else case reg x_data (predict_kwargs(''return_std'' \<mapsto> PyBool True)) of
                                         WithErr _ y_err \<Rightarrow> Inr (imul_self y_err)
                                       | Single _ \<Rightarrow> Inl (Py TypeError))
                               else
                                 (case reg x_data (predict_kwargs(''return_cov'' \<mapsto> PyBool True)) of
                                    WithErr _ y_err \<Rightarrow> Inr y_err
                                  | Single _ \<Rightarrow> Inl (Py TypeError))) of
                           Inl e \<Rightarrow> Inl e
                         | Inr y_err \<Rightarrow>
                             (case fitted_scale self of
                                None \<Rightarrow> Inr (WithErr pred_trans y_err)
                              | Some sc \<Rightarrow>
                                  (case imul_scale_sq y_err sc of
                                     Inl e \<Rightarrow> Inl (Py e)
                                   | Inr y \<Rightarrow> Inr (WithErr pred_trans y)))))))"

text \<open>
  The keyword arguments that \<open>MLRModel.predict\<close> passes on for every prediction: the
  \<open>predict_kwargs\<close> of the configuration, updated with the arguments of the call, and
  without \<open>return_cov\<close> when both \<open>return_var\<close> and \<open>return_cov\<close> are keys. A model that
  is not fitted returns before (\<open>None\<close>).
\<close>

definition mlr_predict_kwargs :: "bool \<Rightarrow> kwargs \<Rightarrow> kwargs \<Rightarrow> kwargs option" where
  "mlr_predict_kwargs is_fitted cfg_predict_kwargs kwargs =
     (if \<not> is_fitted then None
      else
        (let predict_kwargs = cfg_predict_kwargs ++ kwargs
         in if ''return_var'' \<in> dom predict_kwargs \<and> ''return_cov'' \<in> dom predict_kwargs
            then Some (predict_kwargs(''return_cov'' := None))
            else Some predict_kwargs))"

section \<open>The MLR pipeline\<close>












section \<open>Propagation of the errors of the prediction input\<close>

text \<open>
  Source: \<open>MLRModel._propagate_input_errors\<close> and \<open>MLRModel._get_prediction_dict\<close> in
  \<open>esmvaltool/diag_scripts/mlr/models/__init__.py\<close>.

  The local interpreter is an object of the LIME library: \<open>explain_instance\<close> gives, for
  a row of the prediction input, the list \<open>local_exp[1]\<close> of pairs of a feature position
  and the coefficient of the local linear model; \<open>scaler_scale\<close> is the array
  \<open>scaler.scale_\<close>. A row of input errors is a list of cells, \<open>None\<close> being NaN.
\<close>

record 'row lime_interpreter =
  explain_instance :: "'row \<Rightarrow> (nat \<times> real) list"
  scaler_scale :: "real list"

text \<open>\<open>numpy.nan_to_num\<close> puts zero for NaN.\<close>

definition nan_to_num :: "real option list \<Rightarrow> real list" where
  "nan_to_num xs = map (\<lambda>x. case x of None \<Rightarrow> 0 | Some v \<Rightarrow> v) xs"

text \<open>
  The division of two arrays of one dimension: elementwise for equal lengths, an array
  of length one is broadcast, any other pair of lengths raises ValueError.
\<close>

definition divide_arrays :: "real list \<Rightarrow> real list \<Rightarrow> py_error + real list" where
  "divide_arrays xs ys =
     (if length xs = length ys then Inr (map2 (/) xs ys)
      else if length ys = 1 then Inr (map (\<lambda>x. x / hd ys) xs)
      else if length xs = 1 then Inr (map (\<lambda>y. hd xs / y) ys)
      else Inl ValueError)"

text \<open>
  The loop of the inner function \<open>_propagated_error\<close> over the pairs of the local
  explanation, with the accumulator \<open>squared_error\<close>; an index out of the range of an
  array raises IndexError.
\<close>

fun propagated_error_loop ::
  "string list \<Rightarrow> string list \<Rightarrow> real list \<Rightarrow> (nat \<times> real) list \<Rightarrow> real
     \<Rightarrow> py_error + real" where
  "propagated_error_loop fs cats x_err_scaled [] squared_error = Inr squared_error"
| "propagated_error_loop fs cats x_err_scaled ((idx, coef) # rest) squared_error =
     (if idx \<ge> length fs then Inl IndexError
      else if fs ! idx \<in> set cats
        then propagated_error_loop fs cats x_err_scaled rest squared_error
      else if idx \<ge> length x_err_scaled then Inl IndexError
      else propagated_error_loop fs cats x_err_scaled rest
             (squared_error + (x_err_scaled ! idx * coef)\<^sup>2))"

definition propagated_error ::
  "'row \<Rightarrow> real option list \<Rightarrow> 'row lime_interpreter \<Rightarrow> string list \<Rightarrow> string list
     \<Rightarrow> py_error + real" where
  "propagated_error x_single_pred x_single_err interpreter fs cats =
     (let exp = explain_instance interpreter x_single_pred;
          x_single_err' = nan_to_num x_single_err
      in case divide_arrays x_single_err' (scaler_scale interpreter) of
           Inl e \<Rightarrow> Inl e
         | Inr x_err_scaled \<Rightarrow> propagated_error_loop fs cats x_err_scaled exp 0)"

text \<open>
  \<open>pool.map\<close> over the rows of the input and of its errors: the results in the order of
  the rows, and the exception of the first row that raises.
\<close>

fun pool_map2 :: "('a \<Rightarrow> 'b \<Rightarrow> py_error + 'c) \<Rightarrow> 'a list \<Rightarrow> 'b list \<Rightarrow> py_error + 'c list" where
  "pool_map2 f (x # xs) (y # ys) =
     (case f x y of
        Inl e \<Rightarrow> Inl e
      | Inr v \<Rightarrow> (case pool_map2 f xs ys of Inl e \<Rightarrow> Inl e | Inr vs \<Rightarrow> Inr (v # vs)))"
| "pool_map2 f xs ys = Inr []"

text \<open>
  \<open>MLRModel._propagate_input_errors\<close>; \<open>impute_nans\<close> is the method \<open>_impute_nans\<close>
  applied to a row (the transformation of the imputer of the pipeline, if there is one).
\<close>

definition propagate_input_errors ::
  "('row \<Rightarrow> 'row) \<Rightarrow> 'row lime_interpreter \<Rightarrow> string list \<Rightarrow> string list
     \<Rightarrow> 'row list \<Rightarrow> real option list list \<Rightarrow> py_error + real list" where
  "propagate_input_errors impute_nans interpreter fs cats x_pred x_err =
     pool_map2 (\<lambda>x_single_pred x_single_err.
                  propagated_error x_single_pred x_single_err interpreter fs cats)
       (map impute_nans x_pred) x_err"

text \<open>
  \<open>MLRModel._get_prediction_dict\<close>. The keys of the dictionary are \<open>None\<close>, names and
  positions. The parts computed by other methods are parameters: the dictionary of the
  prediction itself (\<open>_prediction_to_dict\<close>), the estimated model error with its type,
  the LIME importance, and the residuals for a reference. The options are read from the
  configuration: \<open>propagate_input_errors\<close> with the default \<open>True\<close>.
\<close>

datatype pred_key = KNone | KName string | KIdx nat

record prediction_cfg =
  estimate_mlr_model_error :: bool
  cfg_propagate_input_errors :: "bool option"
  return_lime_importance :: bool

record prediction_parts =
  part_pred_dict :: "pred_key \<rightharpoonup> real list"
  part_model_error :: "real list \<times> string"
  part_lime :: "real list"
  part_residual :: "(real list \<Rightarrow> real list) option"

definition get_prediction_dict ::
  "prediction_cfg \<Rightarrow> prediction_parts \<Rightarrow> ('row \<Rightarrow> 'row) \<Rightarrow> 'row lime_interpreter
     \<Rightarrow> string list \<Rightarrow> string list \<Rightarrow> 'row list \<Rightarrow> real option list list option
     \<Rightarrow> py_error + (pred_key \<rightharpoonup> real list)" where
  "get_prediction_dict cfg parts impute_nans interpreter fs cats x_pred x_err =
     (let d0 = part_pred_dict parts;
          d1 = (if estimate_mlr_model_error cfg
                then d0(KName (''squared_mlr_model_error_estim_'' @ snd (part_model_error parts))
                          \<mapsto> fst (part_model_error parts))
                else d0)
      in case (if (case cfg_propagate_input_errors cfg of None \<Rightarrow> True | Some b \<Rightarrow> b)
                  \<and> x_err \<noteq> None
               then (case propagate_input_errors impute_nans interpreter fs cats x_pred (the x_err) of
                       Inl e \<Rightarrow> Inl e
                     | Inr errs \<Rightarrow> Inr (d1(KName ''squared_propagated_input_error'' \<mapsto> errs)))
               else Inr d1) of
           Inl e \<Rightarrow> Inl e
         | Inr d2 \<Rightarrow>
             (let d3 = (if return_lime_importance cfg then d2(KName ''lime'' \<mapsto> part_lime parts)
                        else d2)
              in case part_residual parts of
                   None \<Rightarrow> Inr d3
                 | Some residuals \<Rightarrow>
                     (case d3 KNone of
                        None \<Rightarrow> Inl KeyError
                      | Some y_pred \<Rightarrow> Inr (d3(KName ''residual'' \<mapsto> residuals y_pred)))))"

section \<open>Masked arrays\<close>

text \<open>
  A cell of a masked array is \<open>None\<close> where it is masked. The horizontal grid of a cube
  (latitude and longitude) is flattened to a list of cells. The numbers are reals:
  rounding of floating-point arithmetic is not modelled.
\<close>

type_synonym field = "real option list"

text \<open>
  The product and the difference of two masked arrays: a cell is masked where one of
  the operands is. The arrays have the same shape; numpy raises ValueError for shapes
  that it cannot broadcast, and broadcasting itself is not modelled.
\<close>

definition ma_binop :: "(real \<Rightarrow> real \<Rightarrow> real) \<Rightarrow> field \<Rightarrow> field \<Rightarrow> py_error + field" where
  "ma_binop f xs ys =
     (if length xs = length ys
      then Inr (map2 (\<lambda>x y. case x of None \<Rightarrow> None
                             | Some a \<Rightarrow> (case y of None \<Rightarrow> None | Some b \<Rightarrow> Some (f a b)))
                 xs ys)
      else Inl ValueError)"

text \<open>\<open>numpy.ma.masked_where(condition, a)\<close>: the cells of \<open>a\<close>, masked also where the
  condition holds.\<close>

definition masked_where :: "bool list \<Rightarrow> field \<Rightarrow> py_error + field" where
  "masked_where condition a =
     (if length condition = length a
      then Inr (map2 (\<lambda>c v. if c then None else v) condition a)
      else Inl IndexError)"

definition get_mask :: "field \<Rightarrow> bool list" where
  "get_mask xs = map (\<lambda>x. x = None) xs"

text \<open>
  The sum of a masked array is the sum of its unmasked cells, and the masked constant
  when every cell is masked.
\<close>

definition unmasked :: "field \<Rightarrow> real list" where
  "unmasked xs = concat (map (\<lambda>x. case x of None \<Rightarrow> [] | Some v \<Rightarrow> [v]) xs)"

definition ma_sum :: "field \<Rightarrow> real option" where
  "ma_sum xs = (if list_all (\<lambda>x. x = None) xs then None else Some (sum_list (unmasked xs)))"

text \<open>\<open>numpy.array\<close> of a list of sums: the data of the masked constant is \<open>0.0\<close>.\<close>

definition np_array :: "real option list \<Rightarrow> real list" where
  "np_array xs = map (\<lambda>x. case x of None \<Rightarrow> 0 | Some v \<Rightarrow> v) xs"

text \<open>Running a function that can raise over a list, in order.\<close>

fun map_result :: "('a \<Rightarrow> py_error + 'b) \<Rightarrow> 'a list \<Rightarrow> py_error + 'b list" where
  "map_result f [] = Inr []"
| "map_result f (x # xs) =
     (case f x of
        Inl e \<Rightarrow> Inl e
      | Inr v \<Rightarrow> (case map_result f xs of Inl e \<Rightarrow> Inl e | Inr vs \<Rightarrow> Inr (v # vs)))"

section \<open>Derivation of the variable gtfgco2\<close>

text \<open>
  Source: \<open>esmvaltool/preprocessor/_derive/gtfgco2.py\<close>.

  The cube of the flux \<open>fgco2\<close> has the dimensions time, latitude and longitude (the
  field \<open>TO2M\<close>): its data is one field per index of the time dimension. The cube of the
  cell areas has the dimensions latitude and longitude. The derived cube has the time
  dimension only. Units are \<open>cf_units.Unit\<close> objects, with their product.
\<close>

record 'u flux_cube =
  flux_time :: "real list"
  flux_data :: "field list"
  flux_units :: 'u

record 'u area_cube =
  area_data :: field
  area_units :: 'u

record 'u series_cube =
  series_time :: "real list"
  series_data :: "real list"
  series_units :: 'u

datatype 'u any_cube = FluxCube string "'u flux_cube" | AreaCube string "'u area_cube"

fun name_of :: "'u any_cube \<Rightarrow> string" where
  "name_of (FluxCube n c) = n"
| "name_of (AreaCube n c) = n"

text \<open>\<open>CubeList.extract_strict\<close> for a name: the only cube of that name, and a
  ConstraintMismatchError when there is none or more than one.\<close>

definition extract_strict :: "'u any_cube list \<Rightarrow> string \<Rightarrow> py_error + 'u any_cube" where
  "extract_strict cubes name =
     (case filter (\<lambda>c. name_of c = name) cubes of
        [c] \<Rightarrow> Inr c
      | _ \<Rightarrow> Inl ConstraintMismatchError)"

text \<open>
  The body of the loop of \<open>calculate_total_flux\<close> for one index of time:
  \<open>fgco2_cube[time_itr]\<close> raises IndexError beyond the time dimension.
\<close>

definition total_flux_at :: "'u flux_cube \<Rightarrow> 'u area_cube \<Rightarrow> nat \<Rightarrow> py_error + real option" where
  "total_flux_at fgco2_cube cube_area time_itr =
     (if time_itr \<ge> length (flux_data fgco2_cube) then Inl IndexError
      else
        (let slice = flux_data fgco2_cube ! time_itr
         in case ma_binop (*) slice (area_data cube_area) of
              Inl e \<Rightarrow> Inl e
            | Inr total_flux \<Rightarrow>
                (case masked_where (get_mask slice) total_flux of
                   Inl e \<Rightarrow> Inl e
                 | Inr total_flux' \<Rightarrow> Inr (ma_sum total_flux'))))"

definition calculate_total_flux :: "'u flux_cube \<Rightarrow> 'u area_cube \<Rightarrow> py_error + real list" where
  "calculate_total_flux fgco2_cube cube_area =
     (case map_result (total_flux_at fgco2_cube cube_area)
             [0 ..< length (flux_time fgco2_cube)] of
        Inl e \<Rightarrow> Inl e
      | Inr data \<Rightarrow> Inr (np_array data))"

text \<open>
  \<open>DerivedVariable.calculate\<close>. A missing cube of the cell areas is passed over by the
  \<open>except\<close> clause, and the use of the variable that was never bound then raises
  UnboundLocalError. The collapsed cube keeps the time dimension of the flux; the mean
  that \<open>collapsed\<close> computes is replaced by the total flux, which must have the shape of
  the collapsed cube (ValueError otherwise). A cube whose dimensions are not the ones
  of its name is a TypeError here.
\<close>

definition fgco2_name :: string where
  "fgco2_name = ''surface_downward_mass_flux_of_carbon_dioxide_expressed_as_carbon''"

definition calculate :: "('u::times) any_cube list \<Rightarrow> py_error + 'u series_cube" where
  "calculate cubes =
     (case extract_strict cubes fgco2_name of
        Inl e \<Rightarrow> Inl e
      | Inr (AreaCube _ _) \<Rightarrow> Inl TypeError
      | Inr (FluxCube _ fgco2_cube) \<Rightarrow>
          (case extract_strict cubes ''cell_area'' of
             Inl e \<Rightarrow> Inl UnboundLocalError
           | Inr (FluxCube _ _) \<Rightarrow> Inl TypeError
           | Inr (AreaCube _ cube_area) \<Rightarrow>
               (case calculate_total_flux fgco2_cube cube_area of
                  Inl e \<Rightarrow> Inl e
                | Inr total_flux \<Rightarrow>
                    if length total_flux \<noteq> length (flux_data fgco2_cube) then Inl ValueError
                    else Inr \<lparr>series_time = flux_time fgco2_cube,
                              series_data = total_flux,
                              series_units = flux_units fgco2_cube * area_units cube_area\<rparr>)))"

section \<open>Bias and root-mean-square difference on a grid\<close>

text \<open>
  Source: \<open>area_weighted_mean\<close>, \<open>calculate_bias\<close> and \<open>calculate_rmsd\<close> in
  \<open>esmvaltool/diag_scripts/clouds_ecs/group_lat_lon.py\<close>.

  A cube on a horizontal grid: the grid (its latitude and longitude coordinates), the
  data as a field over the cells of the grid, and the attributes. The mean over the
  grid is a cube of a single value, masked when there is nothing to average.
\<close>

record ('g, 'at) grid_cube =
  gc_grid :: 'g
  gc_data :: field
  gc_attributes :: 'at

record ('g, 'at) scalar_cube =
  sc_grid :: 'g
  sc_data :: "real option"
  sc_attributes :: 'at

text \<open>
  The difference of two cubes in the data library: the coordinates have to agree
  (ValueError otherwise), the data is the difference of the masked arrays, and the
  attributes that the operands share are kept (\<open>common\<close>).
\<close>

definition cube_subtract ::
  "('at \<Rightarrow> 'at \<Rightarrow> 'at) \<Rightarrow> ('g, 'at) grid_cube \<Rightarrow> ('g, 'at) grid_cube
     \<Rightarrow> py_error + ('g, 'at) grid_cube" where
  "cube_subtract common a b =
     (if gc_grid a \<noteq> gc_grid b then Inl ValueError
      else case ma_binop (-) (gc_data a) (gc_data b) of
             Inl e \<Rightarrow> Inl e
           | Inr d \<Rightarrow> Inr \<lparr>gc_grid = gc_grid a, gc_data = d,
                          gc_attributes = common (gc_attributes a) (gc_attributes b)\<rparr>)"

text \<open>\<open>cube**2\<close>, cell by cell.\<close>

definition cube_square :: "('g, 'at) grid_cube \<Rightarrow> ('g, 'at) grid_cube" where
  "cube_square a = a\<lparr>gc_data := map (map_option (\<lambda>x. x\<^sup>2)) (gc_data a)\<rparr>"

text \<open>
  \<open>cube**0.5\<close> of a cube of a single value: the square root, and not a number (no
  value) for a negative number.
\<close>

definition cube_sqrt :: "('g, 'at) scalar_cube \<Rightarrow> ('g, 'at) scalar_cube" where
  "cube_sqrt a = a\<lparr>sc_data := (case sc_data a of
                                  None \<Rightarrow> None
                                | Some x \<Rightarrow> if x < 0 then None else Some (sqrt x))\<rparr>"

text \<open>
  The weighted mean of a masked array (\<open>numpy.ma.average\<close>, which the aggregator
  \<open>MEAN\<close> of the data library calls): the weights of the masked cells do not count, and
  the result is masked when the weights that count sum to zero. Weights of another
  shape than the data raise ValueError.
\<close>

definition weighted_cells :: "field \<Rightarrow> real list \<Rightarrow> (real \<times> real) list" where
  "weighted_cells xs ws =
     concat (map2 (\<lambda>x w. case x of None \<Rightarrow> [] | Some v \<Rightarrow> [(v, w)]) xs ws)"

definition ma_average :: "field \<Rightarrow> real list \<Rightarrow> py_error + real option" where
  "ma_average xs ws =
     (if length xs \<noteq> length ws then Inl ValueError
      else
        (let cells = weighted_cells xs ws;
             scl = (\<Sum>(v, w) \<leftarrow> cells. w)
         in if scl = 0 then Inr None
            else Inr (Some ((\<Sum>(v, w) \<leftarrow> cells. v * w) / scl))))"

text \<open>
  \<open>area_weighted_mean\<close>; the weights of the cells are computed by the data library
  from the grid of the cube (\<open>iris.analysis.cartography.area_weights\<close>), hence a
  parameter.
\<close>

definition area_weighted_mean ::
  "('g \<Rightarrow> real list) \<Rightarrow> ('g, 'at) grid_cube \<Rightarrow> py_error + ('g, 'at) scalar_cube" where
  "area_weighted_mean area_weights cube =
     (let grid_areas = area_weights (gc_grid cube)
      in case ma_average (gc_data cube) grid_areas of
           Inl e \<Rightarrow> Inl e
         | Inr mean \<Rightarrow> Inr \<lparr>sc_grid = gc_grid cube, sc_data = mean,
                             sc_attributes = gc_attributes cube\<rparr>)"

definition calculate_bias ::
  "('g \<Rightarrow> real list) \<Rightarrow> ('at \<Rightarrow> 'at \<Rightarrow> 'at) \<Rightarrow> ('g, 'at) grid_cube \<Rightarrow> ('g, 'at) grid_cube
     \<Rightarrow> py_error + ('g, 'at) scalar_cube" where
  "calculate_bias area_weights common model_cube obs_cube =
     (case cube_subtract common model_cube obs_cube of
        Inl e \<Rightarrow> Inl e
      | Inr diff \<Rightarrow>
          (case area_weighted_mean area_weights diff of
             Inl e \<Rightarrow> Inl e
           | Inr bias \<Rightarrow> Inr (bias\<lparr>sc_attributes := gc_attributes model_cube\<rparr>)))"

definition calculate_rmsd ::
  "('g \<Rightarrow> real list) \<Rightarrow> ('at \<Rightarrow> 'at \<Rightarrow> 'at) \<Rightarrow> ('g, 'at) grid_cube \<Rightarrow> ('g, 'at) grid_cube
     \<Rightarrow> py_error + ('g, 'at) scalar_cube" where
  "calculate_rmsd area_weights common model_cube obs_cube =
     (case cube_subtract common model_cube obs_cube of
        Inl e \<Rightarrow> Inl e
      | Inr diff \<Rightarrow>
          (case area_weighted_mean area_weights (cube_square diff) of
             Inl e \<Rightarrow> Inl e
           | Inr mean \<Rightarrow> Inr ((cube_sqrt mean)\<lparr>sc_attributes := gc_attributes model_cube\<rparr>)))"

text \<open>
  The statistics in the words of their description, for comparison with the code: the
  cells where both the model and the observation have a value, each with its weight,
  and the weighted mean of a function of the two values over these cells.
\<close>

definition common_cells :: "real list \<Rightarrow> field \<Rightarrow> field \<Rightarrow> (real \<times> real \<times> real) list" where
  "common_cells ws ms os =
     concat (map (\<lambda>(w, m, ob). case m of None \<Rightarrow> []
                 | Some a \<Rightarrow> (case ob of None \<Rightarrow> [] | Some b \<Rightarrow> [(w, a, b)]))
               (zip ws (zip ms os)))"

definition weighted_mean_of ::
  "(real \<Rightarrow> real \<Rightarrow> real) \<Rightarrow> (real \<times> real \<times> real) list \<Rightarrow> real" where
  "weighted_mean_of f cells =
     (\<Sum>(w, a, b) \<leftarrow> cells. w * f a b) / (\<Sum>(w, a, b) \<leftarrow> cells. w)"

section \<open>The CMORizer of the ERA5 monthly means\<close>

text \<open>
  Source: \<open>_extract_variable\<close> in
  \<open>esmvaltool/cmorizers/obs/cmorize_obs_cds_era5_monthly.py\<close>.

  The definition of a variable in the CMOR table, and the cube that is read from the
  input file: its names, the type and the units of its data, the data with the
  dimensions time, latitude and longitude (the slice \<open>cube[:, ::-1, ...]\<close> of the source
  reverses the second of them), and its three coordinates. A coordinate has a variable
  name, points with their type, and bounds or none.
\<close>

record cmor_definition =
  def_short_name :: string
  def_standard_name :: string
  def_long_name :: string
  def_units :: string

record era_coord =
  co_var_name :: "string option"
  co_points :: "real list"
  co_dtype :: string
  co_bounds :: "(real \<times> real) list option"

record era_cube =
  cb_var_name :: "string option"
  cb_standard_name :: "string option"
  cb_long_name :: "string option"
  cb_dtype :: string
  cb_units :: string
  cb_data :: "real list list list"
  cb_latitude :: era_coord
  cb_longitude :: era_coord
  cb_time :: era_coord

text \<open>
  What the libraries do, as parameters. \<open>valid_standard_name\<close> is the table of the
  standard names (assigning another name to \<open>standard_name\<close> raises ValueError).
  \<open>to_float32\<close> and \<open>to_float64\<close> are the values that \<open>astype\<close> gives a number in the
  two types. \<open>guess\<close> computes the bounds that \<open>guess_bounds\<close> gives to points.
  \<open>converter\<close> gives the conversion between two units as \<open>convert_units\<close> applies it to
  the data, or the exception that it raises. \<open>ipython_embed\<close> is the interactive shell
  that the source starts with \<open>import IPython;IPython.embed()\<close>: it gives the cube as
  the session leaves it, or the exception of the import or of the session.
\<close>

record era_library =
  valid_standard_name :: "string \<Rightarrow> bool"
  to_float32 :: "real \<Rightarrow> real"
  to_float64 :: "real \<Rightarrow> real"
  guess :: "real list \<Rightarrow> (real \<times> real) list"
  converter :: "string \<Rightarrow> string \<Rightarrow> py_error + (real \<Rightarrow> real)"
  ipython_embed :: "era_cube \<Rightarrow> py_error + era_cube"

text \<open>
  The body of the loop over the coordinates: the points cast to float64, and guessed
  bounds. \<open>guess_bounds\<close> raises ValueError for a coordinate that has bounds already, and
  for one with fewer than two points.
\<close>

definition fix_coord :: "era_library \<Rightarrow> era_coord \<Rightarrow> py_error + era_coord" where
  "fix_coord lib coord =
     (let coord' = coord\<lparr>co_points := map (to_float64 lib) (co_points coord),
                          co_dtype := ''float64''\<rparr>
      in if co_bounds coord' \<noteq> None then Inl ValueError
         else if length (co_points coord') < 2 then Inl ValueError
         else Inr (coord'\<lparr>co_bounds := Some (guess lib (co_points coord'))\<rparr>))"

text \<open>\<open>cube.convert_units(units)\<close>.\<close>

definition convert_units :: "era_library \<Rightarrow> string \<Rightarrow> era_cube \<Rightarrow> py_error + era_cube" where
  "convert_units lib units cube =
     (case converter lib (cb_units cube) units of
        Inl e \<Rightarrow> Inl e
      | Inr f \<Rightarrow> Inr (cube\<lparr>cb_data := map (map (map f)) (cb_data cube), cb_units := units\<rparr>))"

text \<open>\<open>cube[:, ::-1, ...]\<close>: the second dimension reversed, in the data and in the
  coordinate of that dimension.\<close>

definition reverse_latitude :: "era_cube \<Rightarrow> era_cube" where
  "reverse_latitude cube =
     cube\<lparr>cb_data := map rev (cb_data cube),
          cb_latitude := (cb_latitude cube)
            \<lparr>co_points := rev (co_points (cb_latitude cube)),
             co_bounds := map_option rev (co_bounds (cb_latitude cube))\<rparr>\<rparr>"

text \<open>
  \<open>_extract_variable\<close>, from the loaded cube to the cube that is given to
  \<open>save_variable\<close>. The ValueError of an invalid standard name is caught and logged. The
  global attributes, which \<open>set_global_atts\<close> writes, are not part of the model.
\<close>

definition extract_variable ::
  "era_library \<Rightarrow> cmor_definition \<Rightarrow> era_cube \<Rightarrow> py_error + era_cube" where
  "extract_variable lib definition cube0 =
     (let cube1 = cube0\<lparr>cb_var_name := Some (def_short_name definition)\<rparr>;
          cube2 = (if valid_standard_name lib (def_standard_name definition)
                   then cube1\<lparr>cb_standard_name := Some (def_standard_name definition)\<rparr>
                   else cube1);
          cube3 = cube2\<lparr>cb_long_name := Some (def_long_name definition)\<rparr>;
          cube4 = cube3\<lparr>cb_data := map (map (map (to_float32 lib))) (cb_data cube3),
                         cb_dtype := ''float32''\<rparr>;
          cube5 = cube4\<lparr>cb_latitude := (cb_latitude cube4)\<lparr>co_var_name := Some ''lat''\<rparr>\<rparr>;
          cube6 = cube5\<lparr>cb_longitude := (cb_longitude cube5)\<lparr>co_var_name := Some ''lon''\<rparr>\<rparr>
      in case fix_coord lib (cb_latitude cube6) of
           Inl e \<Rightarrow> Inl e
         | Inr lat \<Rightarrow>
             (case fix_coord lib (cb_longitude cube6) of
                Inl e \<Rightarrow> Inl e
              | Inr lon \<Rightarrow>
                  (case fix_coord lib (cb_time cube6) of
                     Inl e \<Rightarrow> Inl e
                   | Inr time \<Rightarrow>
                       (case ipython_embed lib
                               (cube6\<lparr>cb_latitude := lat, cb_longitude := lon, cb_time := time\<rparr>) of
                          Inl e \<Rightarrow> Inl e
                        | Inr cube7 \<Rightarrow>
                            (case convert_units lib (def_units definition) cube7 of
                               Inl e \<Rightarrow> Inl e
                             | Inr cube8 \<Rightarrow> Inr (reverse_latitude cube8))))))"

section \<open>Powers of units\<close>
































section \<open>Properties of the checks\<close>

text \<open>
  Claim C6. With \<open>accept_only_scalar_data\<close> set, a cube whose shape is neither \<open>()\<close> nor
  \<open>(1,)\<close> raises ValueError. Otherwise, with a reference cube, a cube of another shape
  than the reference raises ValueError, and a cube of the same shape returns normally.
\<close>

theorem check_cube_dimensions_shapes:
  "(accept_only_scalar_data m \<and> cube_shape cube \<noteq> [] \<and> cube_shape cube \<noteq> [1]
      \<longrightarrow> check_cube_dimensions m cube ref_cube = Inl ValueError)
   \<and> (\<not> accept_only_scalar_data m \<and> ref_cube = Some ref \<and> cube_shape cube \<noteq> cube_shape ref
      \<longrightarrow> check_cube_dimensions m cube ref_cube = Inl ValueError)
   \<and> (\<not> accept_only_scalar_data m \<and> ref_cube = Some ref \<and> cube_shape cube = cube_shape ref
      \<longrightarrow> (\<exists>ws. check_cube_dimensions m cube ref_cube = Inr ws))"
  by (simp add: check_cube_dimensions_def)

theorem check_cube_dimensions_shapes_witness:
  "check_cube_dimensions
      \<lparr>accept_only_scalar_data = True, allow_missing_features = False,
       label_units = ''K'', features_units = Map.empty\<rparr>
      \<lparr>cube_shape = [2, 3], dim_coords = []\<rparr> None = Inl ValueError
   \<and> check_cube_dimensions
      \<lparr>accept_only_scalar_data = False, allow_missing_features = False,
       label_units = ''K'', features_units = Map.empty\<rparr>
      \<lparr>cube_shape = [2, 3], dim_coords = []\<rparr>
      (Some \<lparr>cube_shape = [3, 2], dim_coords = []\<rparr>) = Inl ValueError
   \<and> (\<exists>ws. check_cube_dimensions
      \<lparr>accept_only_scalar_data = False, allow_missing_features = False,
       label_units = ''K'', features_units = Map.empty\<rparr>
      \<lparr>cube_shape = [2, 3], dim_coords = []\<rparr>
      (Some \<lparr>cube_shape = [2, 3], dim_coords = []\<rparr>) = Inr ws)"
  using
    check_cube_dimensions_shapes [of
      "\<lparr>accept_only_scalar_data = True, allow_missing_features = False,
        label_units = ''K'', features_units = Map.empty\<rparr>"
      "\<lparr>cube_shape = [2, 3], dim_coords = []\<rparr>" None undefined]
    check_cube_dimensions_shapes [of
      "\<lparr>accept_only_scalar_data = False, allow_missing_features = False,
        label_units = ''K'', features_units = Map.empty\<rparr>"
      "\<lparr>cube_shape = [2, 3], dim_coords = []\<rparr>"
      "Some \<lparr>cube_shape = [3, 2], dim_coords = []\<rparr>"
      "\<lparr>cube_shape = [3, 2], dim_coords = []\<rparr>"]
    check_cube_dimensions_shapes [of
      "\<lparr>accept_only_scalar_data = False, allow_missing_features = False,
        label_units = ''K'', features_units = Map.empty\<rparr>"
      "\<lparr>cube_shape = [2, 3], dim_coords = []\<rparr>"
      "Some \<lparr>cube_shape = [2, 3], dim_coords = []\<rparr>"
      "\<lparr>cube_shape = [2, 3], dim_coords = []\<rparr>"]
  by simp

text \<open>
  The errors of \<open>_check_dataset\<close> where the expected units exist. For a variable type
  and a tag: more than one matching dataset raises ValueError; exactly one matching
  dataset whose declared units are not the expected units (of the label for \<open>label\<close>,
  of the feature with that tag otherwise, if the features have that tag) raises
  ValueError; a missing \<open>label\<close> dataset raises ValueError; and a missing feature
  dataset raises ValueError exactly when \<open>allow_missing_features\<close> is not set.
\<close>

theorem check_dataset_errors:
  "(length (select_metadata datasets tag var_type) > 1
      \<longrightarrow> check_dataset Unit m datasets var_type tag = Inl ValueError)
   \<and> (select_metadata datasets tag var_type = [d]
       \<and> (if var_type = ''label'' then Some (label_units m) else features_units m tag)
           = Some expected
       \<and> Unit (ds_units d) \<noteq> Some expected
      \<longrightarrow> check_dataset Unit m datasets var_type tag = Inl ValueError)
   \<and> (select_metadata datasets tag ''label'' = []
      \<longrightarrow> check_dataset Unit m datasets ''label'' tag = Inl ValueError)
   \<and> (select_metadata datasets tag var_type = []
       \<and> var_type \<notin> {''label'', ''prediction_input_error'', ''prediction_reference''}
      \<longrightarrow> (check_dataset Unit m datasets var_type tag = Inl ValueError
            \<longleftrightarrow> \<not> allow_missing_features m))"
  by (auto simp add: check_dataset_def Let_def split: option.splits)

theorem check_dataset_errors_witness:
  "check_dataset (\<lambda>s. Some s)
      \<lparr>accept_only_scalar_data = False, allow_missing_features = False,
       label_units = ''K'', features_units = [''pr'' \<mapsto> ''mm'']\<rparr>
      [\<lparr>ds_tag = ''pr'', ds_var_type = ''feature'', ds_units = ''mm''\<rparr>,
       \<lparr>ds_tag = ''pr'', ds_var_type = ''feature'', ds_units = ''mm''\<rparr>]
      ''feature'' ''pr'' = Inl ValueError
   \<and> check_dataset (\<lambda>s. Some s)
      \<lparr>accept_only_scalar_data = False, allow_missing_features = False,
       label_units = ''K'', features_units = [''pr'' \<mapsto> ''mm'']\<rparr>
      [\<lparr>ds_tag = ''pr'', ds_var_type = ''feature'', ds_units = ''kg''\<rparr>]
      ''feature'' ''pr'' = Inl ValueError
   \<and> check_dataset (\<lambda>s. Some s)
      \<lparr>accept_only_scalar_data = False, allow_missing_features = False,
       label_units = ''K'', features_units = [''pr'' \<mapsto> ''mm'']\<rparr>
      [] ''label'' ''tas'' = Inl ValueError
   \<and> check_dataset (\<lambda>s. Some s)
      \<lparr>accept_only_scalar_data = False, allow_missing_features = False,
       label_units = ''K'', features_units = [''pr'' \<mapsto> ''mm'']\<rparr>
      [] ''feature'' ''pr'' = Inl ValueError
   \<and> check_dataset (\<lambda>s. Some s)
      \<lparr>accept_only_scalar_data = False, allow_missing_features = True,
       label_units = ''K'', features_units = [''pr'' \<mapsto> ''mm'']\<rparr>
      [] ''feature'' ''pr'' \<noteq> Inl ValueError"
  using
    check_dataset_errors [where
      datasets = "[\<lparr>ds_tag = ''pr'', ds_var_type = ''feature'', ds_units = ''mm''\<rparr>,
        \<lparr>ds_tag = ''pr'', ds_var_type = ''feature'', ds_units = ''mm''\<rparr>]"
      and tag = "''pr''" and var_type = "''feature''" and Unit = "\<lambda>s. Some s"
      and m = "\<lparr>accept_only_scalar_data = False, allow_missing_features = False,
        label_units = ''K'', features_units = [''pr'' \<mapsto> ''mm'']\<rparr>"]
    check_dataset_errors [where
      datasets = "[\<lparr>ds_tag = ''pr'', ds_var_type = ''feature'', ds_units = ''kg''\<rparr>]"
      and tag = "''pr''" and var_type = "''feature''" and Unit = "\<lambda>s. Some s"
      and d = "\<lparr>ds_tag = ''pr'', ds_var_type = ''feature'', ds_units = ''kg''\<rparr>"
      and m = "\<lparr>accept_only_scalar_data = False, allow_missing_features = False,
        label_units = ''K'', features_units = [''pr'' \<mapsto> ''mm'']\<rparr>"
      and expected = "''mm''"]
    check_dataset_errors [where datasets = "[]" and tag = "''tas''"
      and var_type = "''feature''" and Unit = "\<lambda>s. Some s"
      and m = "\<lparr>accept_only_scalar_data = False, allow_missing_features = False,
        label_units = ''K'', features_units = [''pr'' \<mapsto> ''mm'']\<rparr>"]
    check_dataset_errors [where datasets = "[]" and tag = "''pr''"
      and var_type = "''feature''" and Unit = "\<lambda>s. Some s"
      and m = "\<lparr>accept_only_scalar_data = False, allow_missing_features = False,
        label_units = ''K'', features_units = [''pr'' \<mapsto> ''mm'']\<rparr>"]
    check_dataset_errors [where datasets = "[]" and tag = "''pr''"
      and var_type = "''feature''" and Unit = "\<lambda>s. Some s"
      and m = "\<lparr>accept_only_scalar_data = False, allow_missing_features = True,
        label_units = ''K'', features_units = [''pr'' \<mapsto> ''mm'']\<rparr>"]
  by (simp add: select_metadata_def)

text \<open>
  Claim C5. The claim asks a ValueError of a single matching dataset whose units are
  not the expected ones, for every variable type and tag. The code looks the expected
  units up among the units of the features for every variable type but \<open>label\<close>. The
  reference of a prediction is checked with the tag of the label
  (\<open>_extract_y_data\<close> passes \<open>self.label\<close>), which is not a feature: the single
  matching reference dataset raises KeyError, with wrong units and with the units of
  the label alike.
\<close>

theorem check_dataset_reference_key_error:
  "check_dataset (\<lambda>s. Some s)
      \<lparr>accept_only_scalar_data = False, allow_missing_features = False,
       label_units = ''K'', features_units = [''pr'' \<mapsto> ''mm'']\<rparr>
      [\<lparr>ds_tag = ''tas'', ds_var_type = ''prediction_reference'', ds_units = ''mm''\<rparr>]
      ''prediction_reference'' ''tas'' = Inl KeyError
   \<and> check_dataset (\<lambda>s. Some s)
      \<lparr>accept_only_scalar_data = False, allow_missing_features = False,
       label_units = ''K'', features_units = [''pr'' \<mapsto> ''mm'']\<rparr>
      [\<lparr>ds_tag = ''tas'', ds_var_type = ''prediction_reference'', ds_units = ''K''\<rparr>]
      ''prediction_reference'' ''tas'' = Inl KeyError"
  by (simp add: check_dataset_def select_metadata_def)

section \<open>Properties of the prediction keyword arguments\<close>

lemma pop_default_present:
  "kw k = Some v \<Longrightarrow> pop_default kw k d = (v, kw(k := None))"
  by (simp add: pop_default_def)

lemma pop_default_absent:
  "kw k = None \<Longrightarrow> pop_default kw k d = (d, kw)"
  by (simp add: pop_default_def)

lemma att_predict_drop_return_cov:
  assumes "kw ''return_var'' = Some v" and "truthy v"
  shows "att_predict self x a kw = att_predict self x a (kw(''return_cov'' := None))"
proof (cases "kw ''return_cov''")
  case None
  then have "kw(''return_cov'' := None) = kw" by (simp add: fun_upd_idem_iff)
  then show ?thesis by simp
next
  case (Some c)
  have 1: "pop_default kw ''return_var'' (PyBool False) = (v, kw(''return_var'' := None))"
    using assms(1) by (rule pop_default_present)
  have 2: "pop_default (kw(''return_var'' := None)) ''return_cov'' (PyBool False)
             = (c, kw(''return_var'' := None, ''return_cov'' := None))"
    using Some by (simp add: pop_default_def)
  have tw: "kw(''return_cov'' := None, ''return_var'' := None)
             = kw(''return_var'' := None, ''return_cov'' := None)"
    by (simp add: fun_upd_twist)
  have 3: "pop_default (kw(''return_cov'' := None)) ''return_var'' (PyBool False)
             = (v, kw(''return_var'' := None, ''return_cov'' := None))"
    using assms(1) by (simp add: pop_default_def tw)
  have 4: "pop_default (kw(''return_var'' := None, ''return_cov'' := None)) ''return_cov'' (PyBool False)
             = (PyBool False, kw(''return_var'' := None, ''return_cov'' := None))"
    by (simp add: pop_default_def)
  show ?thesis
    using assms(2)
    by (cases "fitted_regressor self") (simp_all add: att_predict_def 1 2 3 4 Let_def split: predict_out.split)
qed

text \<open>
  Claim C10. With \<open>return_var\<close> and \<open>return_cov\<close> both true, the result of
  \<open>AdvancedTransformedTargetRegressor.predict\<close> is the one without the covariance
  request: the prediction, as it is returned without either request, paired with the
  squared standard deviation times the square of the transformer's scale (no scaling
  when the transformer has no scale). \<open>MLRModel.predict\<close> removes the key
  \<open>return_cov\<close> whenever both keys are present.
\<close>

theorem predict_return_var_and_cov:
  assumes "fitted_regressor self = Some reg"
    and "kw ''return_var'' = Some v" and "truthy v"
    and "kw ''return_cov'' = Some c" and "truthy c"
    and "''return_std'' \<notin> dom kw"
    and "reg x (kw(''return_var'' := None, ''return_cov'' := None)) = Single pred"
    and "reg x (kw(''return_var'' := None, ''return_cov'' := None, ''return_std'' \<mapsto> PyBool True))
           = WithErr p (Arr1 stds)"
    and "fitted_scale self = None \<or> fitted_scale self = Some [s]"
    and "''return_var'' \<in> dom (cfg_kw ++ call_kw)" and "''return_cov'' \<in> dom (cfg_kw ++ call_kw)"
  shows "att_predict self x a kw = att_predict self x a (kw(''return_cov'' := None))
    \<and> (\<exists>pred_trans.
          att_predict self x a (kw(''return_var'' := None, ''return_cov'' := None))
            = Inr (Single pred_trans)
        \<and> att_predict self x a kw
            = Inr (WithErr pred_trans
                (Arr1 (map (\<lambda>e. if fitted_scale self = None then e * e else e * e * s\<^sup>2) stds))))
    \<and> mlr_predict_kwargs True cfg_kw call_kw = Some ((cfg_kw ++ call_kw)(''return_cov'' := None))"
proof -
  let ?kw = "kw(''return_var'' := None, ''return_cov'' := None)"
  have 1: "pop_default kw ''return_var'' (PyBool False) = (v, kw(''return_var'' := None))"
    using assms(2) by (rule pop_default_present)
  have 2: "pop_default (kw(''return_var'' := None)) ''return_cov'' (PyBool False) = (c, ?kw)"
    using assms(4) by (simp add: pop_default_def)
  have 3: "pop_default ?kw ''return_var'' (PyBool False) = (PyBool False, ?kw)"
    by (simp add: pop_default_def)
  have 4: "pop_default ?kw ''return_cov'' (PyBool False) = (PyBool False, ?kw)"
    by (simp add: pop_default_def)
  have std: "''return_std'' \<notin> dom ?kw" using assms(6) by auto
  have a: "att_predict self x a kw = att_predict self x a (kw(''return_cov'' := None))"
    using assms(2,3) by (rule att_predict_drop_return_cov)
  have b: "\<exists>pred_trans.
          att_predict self x a ?kw = Inr (Single pred_trans)
        \<and> att_predict self x a kw
            = Inr (WithErr pred_trans
                (Arr1 (map (\<lambda>e. if fitted_scale self = None then e * e else e * e * s\<^sup>2) stds)))"
    using assms(9)
  proof
    assume n: "fitted_scale self = None"
    show ?thesis
      using assms(1,3,5,7,8) std n by (simp add: att_predict_def 1 2 3 4 Let_def)
  next
    assume n: "fitted_scale self = Some [s]"
    show ?thesis
      using assms(1,3,5,7,8) std n by (simp add: att_predict_def 1 2 3 4 Let_def)
  qed
  have c: "mlr_predict_kwargs True cfg_kw call_kw = Some ((cfg_kw ++ call_kw)(''return_cov'' := None))"
    using assms(10,11) by (simp add: mlr_predict_kwargs_def Let_def)
  from a b c show ?thesis by blast
qed

theorem predict_return_var_and_cov_witness:
  "\<exists>pred_trans.
     att_predict
       \<lparr>fitted_regressor = Some (\<lambda>x kw. if ''return_std'' \<in> dom kw
                                  then WithErr (Arr1 [1]) (Arr1 [3]) else Single (Arr1 [1])),
        inverse_transform = (\<lambda>a. a), fitted_scale = Some [2], training_dim = 1\<rparr>
       () True
       ([''return_var'' \<mapsto> PyBool True, ''return_cov'' \<mapsto> PyBool True]
          (''return_var'' := None, ''return_cov'' := None))
       = Inr (Single pred_trans)
     \<and> att_predict
       \<lparr>fitted_regressor = Some (\<lambda>x kw. if ''return_std'' \<in> dom kw
                                  then WithErr (Arr1 [1]) (Arr1 [3]) else Single (Arr1 [1])),
        inverse_transform = (\<lambda>a. a), fitted_scale = Some [2], training_dim = 1\<rparr>
       () True [''return_var'' \<mapsto> PyBool True, ''return_cov'' \<mapsto> PyBool True]
       = Inr (WithErr pred_trans (Arr1 [36]))"
proof -
  let ?reg = "\<lambda>(x::unit) (kw::kwargs). if ''return_std'' \<in> dom kw
                then WithErr (Arr1 [1]) (Arr1 [3]) else Single (Arr1 [1])"
  let ?self = "\<lparr>fitted_regressor = Some ?reg,
        inverse_transform = (\<lambda>a. a), fitted_scale = Some [2], training_dim = 1\<rparr>"
  let ?kw = "[''return_var'' \<mapsto> PyBool True, ''return_cov'' \<mapsto> PyBool True]"
  have h1: "fitted_regressor ?self = Some ?reg" by simp
  have h2: "?kw ''return_var'' = Some (PyBool True)" by simp
  have h3: "truthy (PyBool True)" by simp
  have h4: "?kw ''return_cov'' = Some (PyBool True)" by simp
  have h6: "''return_std'' \<notin> dom ?kw" by simp
  have h7: "?reg () (?kw(''return_var'' := None, ''return_cov'' := None)) = Single (Arr1 [1])"
    by simp
  have h8: "?reg () (?kw(''return_var'' := None, ''return_cov'' := None,
                         ''return_std'' \<mapsto> PyBool True)) = WithErr (Arr1 [1]) (Arr1 [3])"
    by simp
  have h9: "fitted_scale ?self = None \<or> fitted_scale ?self = Some [2]" by simp
  have h10: "''return_var'' \<in> dom (?kw ++ Map.empty)" by simp
  have h11: "''return_cov'' \<in> dom (?kw ++ Map.empty)" by simp
  have eq: "map (\<lambda>e. if fitted_scale ?self = None then e * e else e * e * 2\<^sup>2) [3::real] = [36]"
    by simp
  from predict_return_var_and_cov [OF h1 h2 h3 h4 h3 h6 h7 h8 h9 h10 h11, where a = True and x = "()"]
  have "\<exists>pred_trans.
      att_predict ?self () True (?kw(''return_var'' := None, ''return_cov'' := None))
        = Inr (Single pred_trans)
    \<and> att_predict ?self () True ?kw
        = Inr (WithErr pred_trans (Arr1 (map (\<lambda>e. if fitted_scale ?self = None then e * e
                                                else e * e * 2\<^sup>2) [3])))"
    by (elim conjE)
  then show ?thesis by (simp only: eq)
qed

section \<open>Properties of the MLR pipeline\<close>








section \<open>Properties of the propagation of input errors\<close>

lemma propagated_error_loop_sum:
  assumes "\<forall>(idx, coef) \<in> set expl. idx < length fs \<and> idx < length xs"
  shows "propagated_error_loop fs cats xs expl acc
    = Inr (acc + (\<Sum>(idx, coef) \<leftarrow> filter (\<lambda>(idx, coef). fs ! idx \<notin> set cats) expl.
                    (xs ! idx * coef)\<^sup>2))"
  using assms
proof (induction expl arbitrary: acc)
  case Nil
  then show ?case by simp
next
  case (Cons p expl)
  obtain idx coef where p: "p = (idx, coef)" by (cases p)
  from Cons.prems p have r: "idx < length fs" "idx < length xs"
    and rest: "\<forall>(idx, coef) \<in> set expl. idx < length fs \<and> idx < length xs"
    by auto
  show ?case
    using r by (simp add: p Cons.IH [OF rest] add.assoc)
qed

lemma propagated_error_sum:
  assumes "length x_single_err = length (scaler_scale interpreter)"
    and "length fs = length (scaler_scale interpreter)"
    and "\<forall>(idx, coef) \<in> set (explain_instance interpreter x_single_pred). idx < length fs"
  shows "propagated_error x_single_pred x_single_err interpreter fs cats
    = Inr (\<Sum>(idx, coef) \<leftarrow> filter (\<lambda>(idx, coef). fs ! idx \<notin> set cats)
                                (explain_instance interpreter x_single_pred).
             (nan_to_num x_single_err ! idx / scaler_scale interpreter ! idx * coef)\<^sup>2)"
proof -
  let ?xs = "map2 (/) (nan_to_num x_single_err) (scaler_scale interpreter)"
  let ?expl = "explain_instance interpreter x_single_pred"
  have len: "length (nan_to_num x_single_err) = length (scaler_scale interpreter)"
    using assms(1) by (simp add: nan_to_num_def)
  have d: "divide_arrays (nan_to_num x_single_err) (scaler_scale interpreter) = Inr ?xs"
    using len by (simp add: divide_arrays_def)
  have lenxs: "length ?xs = length fs" using len assms(2) by simp
  have rng: "\<forall>(idx, coef) \<in> set ?expl. idx < length fs \<and> idx < length ?xs"
    using assms(3) lenxs by auto
  have nth: "\<And>idx. idx < length fs \<Longrightarrow>
      ?xs ! idx = nan_to_num x_single_err ! idx / scaler_scale interpreter ! idx"
    using len assms(2) by simp
  have "(\<Sum>(idx, coef) \<leftarrow> filter (\<lambda>(idx, coef). fs ! idx \<notin> set cats) ?expl.
           (?xs ! idx * coef)\<^sup>2)
      = (\<Sum>(idx, coef) \<leftarrow> filter (\<lambda>(idx, coef). fs ! idx \<notin> set cats) ?expl.
           (nan_to_num x_single_err ! idx / scaler_scale interpreter ! idx * coef)\<^sup>2)"
    using assms(3) nth
    by (intro arg_cong [where f = sum_list] map_cong refl) auto
  then show ?thesis
    using propagated_error_loop_sum [OF rng, of cats 0]
    by (simp add: propagated_error_def Let_def d)
qed

lemma pool_map2_all:
  assumes "length xs = length ys"
    and "\<forall>(x, y) \<in> set (zip xs ys). f x y = Inr (g x y)"
  shows "pool_map2 f xs ys = Inr (map2 g xs ys)"
  using assms by (induction xs ys rule: list_induct2) simp_all

text \<open>
  Claim C7. When errors of the prediction input are given and \<open>propagate_input_errors\<close>
  is not switched off, the dictionary of the prediction has the entry
  \<open>squared_propagated_input_error\<close>, and its value at every point is the sum, over the
  features of the local explanation that are not categorical, of the square of the input
  error (zero for NaN) divided by the scale of the explainer and multiplied by the local
  linear coefficient of the feature.
\<close>

theorem squared_propagated_input_error:
  assumes "cfg_propagate_input_errors cfg \<noteq> Some False"
    and "x_err = Some errs"
    and "length errs = length x_pred"
    and "\<forall>err \<in> set errs. length err = length (scaler_scale interpreter)"
    and "length fs = length (scaler_scale interpreter)"
    and "\<forall>s \<in> set (scaler_scale interpreter). s \<noteq> 0"
    and "\<forall>row \<in> set x_pred. \<forall>(idx, coef) \<in> set (explain_instance interpreter (impute_nans row)).
           idx < length fs"
    and "part_residual parts \<noteq> None \<longrightarrow> part_pred_dict parts KNone \<noteq> None"
  shows "\<exists>d. get_prediction_dict cfg parts impute_nans interpreter fs cats x_pred x_err = Inr d
    \<and> d (KName ''squared_propagated_input_error'')
        = Some (map2 (\<lambda>row err.
                  \<Sum>(idx, coef) \<leftarrow> filter (\<lambda>(idx, coef). fs ! idx \<notin> set cats)
                                       (explain_instance interpreter (impute_nans row)).
                    (nan_to_num err ! idx / scaler_scale interpreter ! idx * coef)\<^sup>2)
                x_pred errs)"
proof -
  let ?g = "\<lambda>row err.
        \<Sum>(idx, coef) \<leftarrow> filter (\<lambda>(idx, coef). fs ! idx \<notin> set cats)
                             (explain_instance interpreter row).
          (nan_to_num err ! idx / scaler_scale interpreter ! idx * coef)\<^sup>2"
  have each: "\<forall>(row, err) \<in> set (zip (map impute_nans x_pred) errs).
      propagated_error row err interpreter fs cats = Inr (?g row err)"
  proof (clarify)
    fix row err assume m: "(row, err) \<in> set (zip (map impute_nans x_pred) errs)"
    then have e: "err \<in> set errs" by (rule set_zip_rightD)
    from m have "row \<in> set (map impute_nans x_pred)" by (rule set_zip_leftD)
    then obtain r where r: "r \<in> set x_pred" "row = impute_nans r" by auto
    show "propagated_error row err interpreter fs cats = Inr (?g row err)"
      using assms(4,5,7) e r by (intro propagated_error_sum) auto
  qed
  have len: "length (map impute_nans x_pred) = length errs" using assms(3) by simp
  have pie: "propagate_input_errors impute_nans interpreter fs cats x_pred errs
      = Inr (map2 ?g (map impute_nans x_pred) errs)"
    unfolding propagate_input_errors_def by (rule pool_map2_all [OF len each])
  have m2: "map2 ?g (map impute_nans x_pred) errs
      = map2 (\<lambda>row err. ?g (impute_nans row) err) x_pred errs"
    by (simp add: zip_map1 case_prod_unfold comp_def)
  have pie': "propagate_input_errors impute_nans interpreter fs cats x_pred errs
      = Inr (map2 (\<lambda>row err. ?g (impute_nans row) err) x_pred errs)"
    by (simp only: pie m2)
  have flag: "(case cfg_propagate_input_errors cfg of None \<Rightarrow> True | Some b \<Rightarrow> b)"
    using assms(1) by (cases "cfg_propagate_input_errors cfg") auto
  show ?thesis
  proof (cases "part_residual parts")
    case None
    then show ?thesis
      using flag assms(2) by (simp add: get_prediction_dict_def Let_def pie')
  next
    case (Some residuals)
    with assms(8) obtain y_pred where y: "part_pred_dict parts KNone = Some y_pred" by auto
    show ?thesis
      using flag assms(2) Some y by (simp add: get_prediction_dict_def Let_def pie')
  qed
qed

theorem squared_propagated_input_error_witness:
  "\<exists>d. get_prediction_dict
         \<lparr>estimate_mlr_model_error = False, cfg_propagate_input_errors = None,
          return_lime_importance = False\<rparr>
         \<lparr>part_pred_dict = [KNone \<mapsto> [1]], part_model_error = ([], ''cv''),
          part_lime = [], part_residual = None\<rparr>
         (\<lambda>row. row)
         \<lparr>explain_instance = (\<lambda>row. [(1, 3), (0, 5), (2, 1)]), scaler_scale = [1, 2, 4]\<rparr>
         [''region'', ''tas'', ''pr''] [''region''] [()] (Some [[None, Some 4, Some 8]])
       = Inr d
     \<and> d (KName ''squared_propagated_input_error'') = Some [40]"
proof -
  let ?cfg = "\<lparr>estimate_mlr_model_error = False, cfg_propagate_input_errors = None,
          return_lime_importance = False\<rparr>"
  let ?parts = "\<lparr>part_pred_dict = [KNone \<mapsto> [1::real]], part_model_error = ([], ''cv''),
          part_lime = [], part_residual = None\<rparr>"
  let ?int = "\<lparr>explain_instance = (\<lambda>row::unit. [(1::nat, 3::real), (0, 5), (2, 1)]),
          scaler_scale = [1, 2, 4]\<rparr>"
  let ?fs = "[''region'', ''tas'', ''pr'']"
  let ?errs = "[[None, Some 4, Some (8::real)]]"
  have h1: "cfg_propagate_input_errors ?cfg \<noteq> Some False" by simp
  have h2: "Some ?errs = Some ?errs" by simp
  have h3: "length ?errs = length [()]" by simp
  have h4: "\<forall>err \<in> set ?errs. length err = length (scaler_scale ?int)" by simp
  have h5: "length ?fs = length (scaler_scale ?int)" by simp
  have h6: "\<forall>s \<in> set (scaler_scale ?int). s \<noteq> 0" by simp
  have h7: "\<forall>row \<in> set [()]. \<forall>(idx, coef) \<in> set (explain_instance ?int ((\<lambda>row. row) row)).
           idx < length ?fs" by simp
  have h8: "part_residual ?parts \<noteq> None \<longrightarrow> part_pred_dict ?parts KNone \<noteq> None" by simp
  from squared_propagated_input_error [OF h1 h2 h3 h4 h5 h6 h7 h8, where cats = "[''region'']"]
  show ?thesis by (simp add: nan_to_num_def)
qed

section \<open>Properties of the derivation of gtfgco2\<close>

lemma map_result_all:
  "\<forall>x \<in> set xs. f x = Inr (g x) \<Longrightarrow> map_result f xs = Inr (map g xs)"
  by (induction xs) simp_all

lemma masked_where_own_mask:
  assumes "length xs = length ys"
  shows "masked_where (get_mask xs)
           (map2 (\<lambda>x y. case x of None \<Rightarrow> None
                         | Some a \<Rightarrow> (case y of None \<Rightarrow> None | Some b \<Rightarrow> Some (f a b))) xs ys)
       = Inr (map2 (\<lambda>x y. case x of None \<Rightarrow> None
                         | Some a \<Rightarrow> (case y of None \<Rightarrow> None | Some b \<Rightarrow> Some (f a b))) xs ys)"
  using assms
  by (induction xs ys rule: list_induct2) (simp_all add: masked_where_def get_mask_def)

lemma ma_sum_value:
  "(case ma_sum xs of None \<Rightarrow> 0 | Some v \<Rightarrow> v) = sum_list (unmasked xs)"
proof (cases "list_all (\<lambda>x. x = None) xs")
  case True
  then have "unmasked xs = []"
    by (induction xs) (simp_all add: unmasked_def)
  with True show ?thesis by (simp add: ma_sum_def)
next
  case False
  then show ?thesis by (simp add: ma_sum_def)
qed

lemma unmasked_product_sum:
  assumes "length xs = length ys"
  shows "sum_list (unmasked (map2 (\<lambda>x y. case x of None \<Rightarrow> None
                         | Some a \<Rightarrow> (case y of None \<Rightarrow> None | Some b \<Rightarrow> Some (a * b))) xs ys))
       = (\<Sum>(x, y) \<leftarrow> zip xs ys.
            case x of None \<Rightarrow> 0 | Some a \<Rightarrow> (case y of None \<Rightarrow> 0 | Some b \<Rightarrow> a * b))"
  using assms
  by (induction xs ys rule: list_induct2)
     (simp_all add: unmasked_def split: option.split)

lemma total_flux_at_value:
  assumes "t < length (flux_data fgco2_cube)"
    and "length (flux_data fgco2_cube ! t) = length (area_data cube_area)"
  shows "total_flux_at fgco2_cube cube_area t
       = Inr (ma_sum (map2 (\<lambda>x y. case x of None \<Rightarrow> None
                         | Some a \<Rightarrow> (case y of None \<Rightarrow> None | Some b \<Rightarrow> Some (a * b)))
                       (flux_data fgco2_cube ! t) (area_data cube_area)))"
  using assms
  by (simp add: total_flux_at_def Let_def ma_binop_def masked_where_own_mask)

text \<open>
  Claim C1. Given exactly one cube of the flux and exactly one cube of the cell areas,
  on the same grid, \<open>calculate\<close> returns a cube over the time dimension of the flux:
  its data at every index of time is the sum, over the cells that are not masked in the
  flux at that time, of the flux times the cell area (a cell whose area is masked
  contributes nothing), and its units are the product of the units of the flux and of
  the units of the cell areas.
\<close>

theorem calculate_gtfgco2:
  assumes "filter (\<lambda>c. name_of c = fgco2_name) cubes = [FluxCube n1 fgco2_cube]"
    and "filter (\<lambda>c. name_of c = ''cell_area'') cubes = [AreaCube n2 cube_area]"
    and "length (flux_time fgco2_cube) = length (flux_data fgco2_cube)"
    and "\<forall>s \<in> set (flux_data fgco2_cube). length s = length (area_data cube_area)"
  shows "\<exists>result. calculate cubes = Inr result
    \<and> series_units result = flux_units fgco2_cube * area_units cube_area
    \<and> series_time result = flux_time fgco2_cube
    \<and> length (series_data result) = length (flux_time fgco2_cube)
    \<and> (\<forall>t < length (flux_time fgco2_cube).
          series_data result ! t
            = (\<Sum>(x, y) \<leftarrow> zip (flux_data fgco2_cube ! t) (area_data cube_area).
                 case x of None \<Rightarrow> 0
                 | Some v \<Rightarrow> (case y of None \<Rightarrow> 0 | Some b \<Rightarrow> v * b)))"
proof -
  let ?prod = "\<lambda>t. map2 (\<lambda>x y. case x of None \<Rightarrow> None
                         | Some a \<Rightarrow> (case y of None \<Rightarrow> None | Some b \<Rightarrow> Some (a * b)))
                       (flux_data fgco2_cube ! t) (area_data cube_area)"
  let ?n = "length (flux_time fgco2_cube)"
  have len: "\<And>t. t < ?n \<Longrightarrow> length (flux_data fgco2_cube ! t) = length (area_data cube_area)"
    using assms(3,4) by simp
  have each: "\<forall>t \<in> set [0 ..< ?n].
      total_flux_at fgco2_cube cube_area t = Inr (ma_sum (?prod t))"
    using assms(3) len by (auto intro!: total_flux_at_value)
  have mr: "map_result (total_flux_at fgco2_cube cube_area) [0 ..< ?n]
      = Inr (map (\<lambda>t. ma_sum (?prod t)) [0 ..< ?n])"
    using each by (rule map_result_all)
  have tf: "calculate_total_flux fgco2_cube cube_area
      = Inr (np_array (map (\<lambda>t. ma_sum (?prod t)) [0 ..< ?n]))"
    by (simp only: calculate_total_flux_def mr sum.case)
  let ?data = "np_array (map (\<lambda>t. ma_sum (?prod t)) [0 ..< ?n])"
  have ld: "length ?data = ?n" by (simp add: np_array_def)
  have val: "\<And>t. t < ?n \<Longrightarrow> ?data ! t
      = (\<Sum>(x, y) \<leftarrow> zip (flux_data fgco2_cube ! t) (area_data cube_area).
           case x of None \<Rightarrow> 0 | Some v \<Rightarrow> (case y of None \<Rightarrow> 0 | Some b \<Rightarrow> v * b))"
  proof -
    fix t assume t: "t < ?n"
    have "?data ! t = (case ma_sum (?prod t) of None \<Rightarrow> 0 | Some v \<Rightarrow> v)"
      using t by (simp add: np_array_def)
    also have "\<dots> = sum_list (unmasked (?prod t))" by (rule ma_sum_value)
    also have "\<dots> = (\<Sum>(x, y) \<leftarrow> zip (flux_data fgco2_cube ! t) (area_data cube_area).
           case x of None \<Rightarrow> 0 | Some v \<Rightarrow> (case y of None \<Rightarrow> 0 | Some b \<Rightarrow> v * b))"
      using len [OF t] by (rule unmasked_product_sum)
    finally show "?data ! t
      = (\<Sum>(x, y) \<leftarrow> zip (flux_data fgco2_cube ! t) (area_data cube_area).
           case x of None \<Rightarrow> 0 | Some v \<Rightarrow> (case y of None \<Rightarrow> 0 | Some b \<Rightarrow> v * b))" .
  qed
  have c: "calculate cubes = Inr \<lparr>series_time = flux_time fgco2_cube,
                              series_data = ?data,
                              series_units = flux_units fgco2_cube * area_units cube_area\<rparr>"
    using assms(3) ld
    by (simp add: calculate_def extract_strict_def assms(1,2) tf)
  show ?thesis
    using c ld val by simp
qed

theorem calculate_gtfgco2_witness:
  "\<exists>result. calculate
       [FluxCube fgco2_name
          \<lparr>flux_time = [0, 1],
           flux_data = [[Some 1, None, Some 2], [None, None, None]],
           flux_units = (2::int)\<rparr>,
        AreaCube ''cell_area'' \<lparr>area_data = [Some 10, Some 20, Some 30], area_units = 3\<rparr>]
       = Inr result
     \<and> series_units result = 6
     \<and> series_data result ! 0 = 70
     \<and> series_data result ! 1 = 0"
proof -
  let ?f = "\<lparr>flux_time = [0, 1],
           flux_data = [[Some 1, None, Some 2], [None, None, None]],
           flux_units = (2::int)\<rparr>"
  let ?a = "\<lparr>area_data = [Some 10, Some 20, Some 30], area_units = (3::int)\<rparr>"
  let ?cubes = "[FluxCube fgco2_name ?f, AreaCube ''cell_area'' ?a]"
  have h1: "filter (\<lambda>c. name_of c = fgco2_name) ?cubes = [FluxCube fgco2_name ?f]"
    by (simp add: fgco2_name_def)
  have h2: "filter (\<lambda>c. name_of c = ''cell_area'') ?cubes = [AreaCube ''cell_area'' ?a]"
    by (simp add: fgco2_name_def)
  have h3: "length (flux_time ?f) = length (flux_data ?f)" by simp
  have h4: "\<forall>s \<in> set (flux_data ?f). length s = length (area_data ?a)" by simp
  from calculate_gtfgco2 [OF h1 h2 h3 h4]
  obtain result where r: "calculate ?cubes = Inr result"
      "series_units result = flux_units ?f * area_units ?a"
      "\<forall>t < length (flux_time ?f). series_data result ! t
         = (\<Sum>(x, y) \<leftarrow> zip (flux_data ?f ! t) (area_data ?a).
              case x of None \<Rightarrow> 0 | Some v \<Rightarrow> (case y of None \<Rightarrow> 0 | Some b \<Rightarrow> v * b))"
    by blast
  from r(3) have "series_data result ! 0 = 70" by simp
  moreover from r(3) have "series_data result ! 1 = 0" by simp
  moreover from r(2) have "series_units result = 6" by simp
  ultimately show ?thesis using r(1) by blast
qed

section \<open>Properties of the bias and of the root-mean-square difference\<close>

lemma weighted_cells_difference:
  assumes "length ws = length ms" and "length ms = length os"
  shows "(\<Sum>(v, w) \<leftarrow> weighted_cells
              (map (map_option g)
                 (map2 (\<lambda>x y. case x of None \<Rightarrow> None
                        | Some a \<Rightarrow> (case y of None \<Rightarrow> None | Some b \<Rightarrow> Some (a - b))) ms os))
              ws. h v w)
       = (\<Sum>(w, a, b) \<leftarrow> common_cells ws ms os. h (g (a - b)) w)"
  using assms
  by (induction ws ms os rule: list_induct3)
     (simp_all add: weighted_cells_def common_cells_def split: option.split)

lemma common_cells_weight:
  "(w, a, b) \<in> set (common_cells ws ms os) \<Longrightarrow> w \<in> set ws"
  by (auto simp add: common_cells_def split: option.splits dest: set_zip_leftD)

lemma sum_weights_positive:
  fixes cells :: "(real \<times> real \<times> real) list"
  assumes "cells \<noteq> []" and "\<forall>c \<in> set cells. 0 < fst c"
  shows "0 < sum_list (map fst cells)"
  using assms
proof (induction cells)
  case Nil
  then show ?case by simp
next
  case (Cons c cells)
  show ?case
  proof (cases "cells = []")
    case True
    then show ?thesis using Cons.prems(2) by simp
  next
    case False
    then have "0 < sum_list (map fst cells)" using Cons by simp
    then show ?thesis using Cons.prems(2) by simp
  qed
qed

lemma sum_weighted_squares_nonneg:
  fixes cells :: "(real \<times> real \<times> real) list"
  assumes "\<forall>c \<in> set cells. 0 < fst c"
  shows "0 \<le> (\<Sum>(w, a, b) \<leftarrow> cells. w * (a - b)\<^sup>2)"
  using assms by (intro sum_list_nonneg) auto

lemma weights_as_fst: "(\<lambda>(w, a, b). w) = (fst :: real \<times> real \<times> real \<Rightarrow> real)"
  by auto

text \<open>
  Claim C2. For a model cube and an observation cube on the same grid, with positive
  area weights and at least one cell where both have a value, \<open>calculate_bias\<close>
  returns the area-weighted mean of the difference, model minus observation, over
  these cells, and \<open>calculate_rmsd\<close> returns the square root of the area-weighted mean
  of the squared difference; both with the attributes of the model cube.
\<close>

theorem bias_and_rmsd:
  assumes "gc_grid model_cube = gc_grid obs_cube"
    and "length (gc_data model_cube) = length (gc_data obs_cube)"
    and "length (area_weights (gc_grid model_cube)) = length (gc_data model_cube)"
    and "\<forall>w \<in> set (area_weights (gc_grid model_cube)). 0 < w"
    and "cells = common_cells (area_weights (gc_grid model_cube))
                   (gc_data model_cube) (gc_data obs_cube)"
    and "cells \<noteq> []"
  shows "calculate_bias area_weights common model_cube obs_cube
       = Inr \<lparr>sc_grid = gc_grid model_cube,
              sc_data = Some (weighted_mean_of (\<lambda>a b. a - b) cells),
              sc_attributes = gc_attributes model_cube\<rparr>
    \<and> calculate_rmsd area_weights common model_cube obs_cube
       = Inr \<lparr>sc_grid = gc_grid model_cube,
              sc_data = Some (sqrt (weighted_mean_of (\<lambda>a b. (a - b)\<^sup>2) cells)),
              sc_attributes = gc_attributes model_cube\<rparr>"
proof -
  let ?ws = "area_weights (gc_grid model_cube)"
  let ?ms = "gc_data model_cube"
  let ?os = "gc_data obs_cube"
  let ?d = "map2 (\<lambda>x y. case x of None \<Rightarrow> None
                  | Some a \<Rightarrow> (case y of None \<Rightarrow> None | Some b \<Rightarrow> Some (a - b))) ?ms ?os"
  have pos: "\<forall>c \<in> set cells. 0 < fst c"
    using assms(4,5) common_cells_weight by fastforce
  have scl: "0 < (\<Sum>(w, a, b) \<leftarrow> cells. w)"
    using sum_weights_positive [OF assms(6) pos] by (simp add: weights_as_fst)
  have sub: "cube_subtract common model_cube obs_cube
      = Inr \<lparr>gc_grid = gc_grid model_cube, gc_data = ?d,
             gc_attributes = common (gc_attributes model_cube) (gc_attributes obs_cube)\<rparr>"
    using assms(1,2) by (simp add: cube_subtract_def ma_binop_def)
  have lend: "length ?d = length ?ws" using assms(2,3) by simp
  have w1: "\<And>g. (\<Sum>(v, w) \<leftarrow> weighted_cells (map (map_option g) ?d) ?ws. w)
      = (\<Sum>(w, a, b) \<leftarrow> cells. w)"
    using weighted_cells_difference [OF assms(3,2), where h = "\<lambda>v w. w"] assms(5) by simp
  have v1: "\<And>g. (\<Sum>(v, w) \<leftarrow> weighted_cells (map (map_option g) ?d) ?ws. v * w)
      = (\<Sum>(w, a, b) \<leftarrow> cells. w * g (a - b))"
    using weighted_cells_difference [OF assms(3,2), where h = "\<lambda>v w. v * w"] assms(5)
    by (simp add: mult.commute)
  have avg: "\<And>g. ma_average (map (map_option g) ?d) ?ws
      = Inr (Some (weighted_mean_of (\<lambda>a b. g (a - b)) cells))"
    unfolding ma_average_def Let_def w1 v1 weighted_mean_of_def
    using scl lend by simp
  have idm: "map (map_option (\<lambda>x. x)) ?d = ?d"
    by (simp add: option.map_ident)
  have avg_bias: "ma_average ?d ?ws = Inr (Some (weighted_mean_of (\<lambda>a b. a - b) cells))"
    using avg [of "\<lambda>x. x"] by (simp only: idm)
  have bias: "calculate_bias area_weights common model_cube obs_cube
       = Inr \<lparr>sc_grid = gc_grid model_cube,
              sc_data = Some (weighted_mean_of (\<lambda>a b. a - b) cells),
              sc_attributes = gc_attributes model_cube\<rparr>"
    by (simp add: calculate_bias_def sub area_weighted_mean_def Let_def avg_bias)
  have nonneg: "0 \<le> weighted_mean_of (\<lambda>a b. (a - b)\<^sup>2) cells"
    unfolding weighted_mean_of_def
    using sum_weighted_squares_nonneg [OF pos] scl by (intro divide_nonneg_pos)
  have rmsd: "calculate_rmsd area_weights common model_cube obs_cube
       = Inr \<lparr>sc_grid = gc_grid model_cube,
              sc_data = Some (sqrt (weighted_mean_of (\<lambda>a b. (a - b)\<^sup>2) cells)),
              sc_attributes = gc_attributes model_cube\<rparr>"
    using nonneg
    by (simp add: calculate_rmsd_def sub area_weighted_mean_def Let_def cube_square_def
          avg [of "\<lambda>x. x\<^sup>2"] cube_sqrt_def del: map_map)
  from bias rmsd show ?thesis by (rule conjI)
qed

theorem bias_and_rmsd_witness:
  "calculate_bias (\<lambda>g. [1, 3, 2]) (\<lambda>a b. '''')
       \<lparr>gc_grid = (), gc_data = [Some 3, Some 3, None], gc_attributes = ''model''\<rparr>
       \<lparr>gc_grid = (), gc_data = [Some 1, Some 1, Some 7], gc_attributes = ''obs''\<rparr>
     = Inr \<lparr>sc_grid = (), sc_data = Some 2, sc_attributes = ''model''\<rparr>
   \<and> calculate_rmsd (\<lambda>g. [1, 3, 2]) (\<lambda>a b. '''')
       \<lparr>gc_grid = (), gc_data = [Some 3, Some 3, None], gc_attributes = ''model''\<rparr>
       \<lparr>gc_grid = (), gc_data = [Some 1, Some 1, Some 7], gc_attributes = ''obs''\<rparr>
     = Inr \<lparr>sc_grid = (), sc_data = Some 2, sc_attributes = ''model''\<rparr>"
proof -
  let ?w = "\<lambda>g::unit. [1, 3, 2::real]"
  let ?m = "\<lparr>gc_grid = (), gc_data = [Some 3, Some 3, None], gc_attributes = ''model''\<rparr>"
  let ?o = "\<lparr>gc_grid = (), gc_data = [Some 1, Some 1, Some 7], gc_attributes = ''obs''\<rparr>"
  let ?cells = "[(1, 3, 1), (3, 3, 1)] :: (real \<times> real \<times> real) list"
  have h1: "gc_grid ?m = gc_grid ?o" by simp
  have h2: "length (gc_data ?m) = length (gc_data ?o)" by simp
  have h3: "length (?w (gc_grid ?m)) = length (gc_data ?m)" by simp
  have h4: "\<forall>w \<in> set (?w (gc_grid ?m)). 0 < w" by simp
  have h5: "?cells = common_cells (?w (gc_grid ?m)) (gc_data ?m) (gc_data ?o)"
    by (simp add: common_cells_def)
  have h6: "?cells \<noteq> []" by simp
  have b: "weighted_mean_of (\<lambda>a b. a - b) ?cells = 2"
    by (simp add: weighted_mean_of_def)
  have "weighted_mean_of (\<lambda>a b. (a - b)\<^sup>2) ?cells = 2\<^sup>2"
    by (simp add: weighted_mean_of_def)
  then have r: "sqrt (weighted_mean_of (\<lambda>a b. (a - b)\<^sup>2) ?cells) = 2"
    by (simp only: real_sqrt_abs)
  from bias_and_rmsd [OF h1 h2 h3 h4 h5 h6, where common = "\<lambda>a b. ''''"]
  show ?thesis by (simp add: b r)
qed

section \<open>Properties of the CMORizer of the ERA5 monthly means\<close>

lemma fix_coord_ok:
  assumes "co_bounds coord = None" and "2 \<le> length (co_points coord)"
  shows "fix_coord lib coord
       = Inr (coord\<lparr>co_points := map (to_float64 lib) (co_points coord),
                    co_dtype := ''float64'',
                    co_bounds := Some (guess lib (map (to_float64 lib) (co_points coord)))\<rparr>)"
  using assms by (simp add: fix_coord_def Let_def)

text \<open>
  Claim C3, as it holds. Take a cube whose coordinates have no bounds and at least two
  points each, whose units can be converted to the units of the definition, and an
  interactive session that is left without an exception and without a change of the
  cube. The cube given to \<open>save_variable\<close> has: the variable name and the long name of
  the definition; the standard name of the definition when that is a valid standard
  name, and the standard name of the input otherwise; data of type float32; the
  coordinates of latitude and longitude named \<open>lat\<close> and \<open>lon\<close>, with points of type
  float64 and guessed bounds; and the units of the definition. When the latitude of the
  input decreases, the latitude of the output increases: its points, its bounds and
  the data, cast to float32 and converted, are those of the input in the reverse
  order of the latitude.
\<close>

theorem extract_variable_normalized:
  assumes "co_bounds (cb_latitude cube) = None" and "2 \<le> length (co_points (cb_latitude cube))"
    and "co_bounds (cb_longitude cube) = None" and "2 \<le> length (co_points (cb_longitude cube))"
    and "co_bounds (cb_time cube) = None" and "2 \<le> length (co_points (cb_time cube))"
    and "\<And>c. ipython_embed lib c = Inr c"
    and "converter lib (cb_units cube) (def_units definition) = Inr f"
  shows "\<exists>out. extract_variable lib definition cube = Inr out
    \<and> cb_var_name out = Some (def_short_name definition)
    \<and> cb_long_name out = Some (def_long_name definition)
    \<and> cb_standard_name out
        = (if valid_standard_name lib (def_standard_name definition)
           then Some (def_standard_name definition) else cb_standard_name cube)
    \<and> cb_dtype out = ''float32''
    \<and> co_var_name (cb_latitude out) = Some ''lat''
    \<and> co_var_name (cb_longitude out) = Some ''lon''
    \<and> co_dtype (cb_latitude out) = ''float64''
    \<and> co_dtype (cb_longitude out) = ''float64''
    \<and> co_points (cb_longitude out) = map (to_float64 lib) (co_points (cb_longitude cube))
    \<and> co_bounds (cb_longitude out)
        = Some (guess lib (map (to_float64 lib) (co_points (cb_longitude cube))))
    \<and> co_bounds (cb_latitude out) \<noteq> None
    \<and> cb_units out = def_units definition
    \<and> (sorted_wrt (>) (map (to_float64 lib) (co_points (cb_latitude cube))) \<longrightarrow>
           sorted_wrt (<) (co_points (cb_latitude out))
         \<and> co_points (cb_latitude out)
             = rev (map (to_float64 lib) (co_points (cb_latitude cube)))
         \<and> co_bounds (cb_latitude out)
             = Some (rev (guess lib (map (to_float64 lib) (co_points (cb_latitude cube)))))
         \<and> cb_data out
             = map rev (map (map (map (\<lambda>x. f (to_float32 lib x)))) (cb_data cube)))"
  using assms
  by (simp add: extract_variable_def Let_def fix_coord_ok convert_units_def
        reverse_latitude_def sorted_wrt_rev comp_def)

theorem extract_variable_normalized_witness:
  "\<exists>out. extract_variable
       \<lparr>valid_standard_name = (\<lambda>s. s \<in> set [''air_temperature'',
                                                 ''surface_net_upward_longwave_flux'']),
        to_float32 = (\<lambda>x. x), to_float64 = (\<lambda>x. x),
        guess = map (\<lambda>p. (p - 1 / 2, p + 1 / 2)),
        converter = (\<lambda>a b. if a = b then Inr (\<lambda>x. x) else Inl ValueError),
        ipython_embed = Inr\<rparr>
       \<lparr>def_short_name = ''tas'', def_standard_name = ''air_temperature'',
        def_long_name = ''Near-Surface Air Temperature'', def_units = ''K''\<rparr>
       \<lparr>cb_var_name = Some ''t2m'', cb_standard_name = None,
        cb_long_name = Some ''2 metre temperature'', cb_dtype = ''int16'', cb_units = ''K'',
        cb_data = [[[1, 2], [3, 4]], [[5, 6], [7, 8]]],
        cb_latitude = \<lparr>co_var_name = Some ''latitude'', co_points = [1, 0],
                        co_dtype = ''float32'', co_bounds = None\<rparr>,
        cb_longitude = \<lparr>co_var_name = Some ''longitude'', co_points = [0, 1],
                         co_dtype = ''float32'', co_bounds = None\<rparr>,
        cb_time = \<lparr>co_var_name = Some ''time'', co_points = [0, 31],
                    co_dtype = ''int32'', co_bounds = None\<rparr>\<rparr>
      = Inr out
    \<and> cb_var_name out = Some ''tas''
    \<and> cb_standard_name out = Some ''air_temperature''
    \<and> cb_dtype out = ''float32''
    \<and> co_var_name (cb_latitude out) = Some ''lat''
    \<and> co_bounds (cb_latitude out) = Some [(- (1 / 2), 1 / 2), (1 / 2, 3 / 2)]
    \<and> cb_units out = ''K''
    \<and> cb_data out = [[[3, 4], [1, 2]], [[7, 8], [5, 6]]]
    \<and> co_points (cb_latitude out) = [0, 1]
    \<and> sorted_wrt (<) (co_points (cb_latitude out))"
proof -
  let ?lib = "\<lparr>valid_standard_name = (\<lambda>s. s \<in> set [''air_temperature'',
                                                 ''surface_net_upward_longwave_flux'']),
        to_float32 = (\<lambda>x. x), to_float64 = (\<lambda>x. x),
        guess = map (\<lambda>p. (p - 1 / 2, p + 1 / 2)),
        converter = (\<lambda>a b. if a = b then Inr (\<lambda>x. x) else Inl ValueError),
        ipython_embed = Inr\<rparr>"
  let ?def = "\<lparr>def_short_name = ''tas'', def_standard_name = ''air_temperature'',
        def_long_name = ''Near-Surface Air Temperature'', def_units = ''K''\<rparr>"
  let ?cube = "\<lparr>cb_var_name = Some ''t2m'', cb_standard_name = None,
        cb_long_name = Some ''2 metre temperature'', cb_dtype = ''int16'', cb_units = ''K'',
        cb_data = [[[1, 2], [3, 4]], [[5, 6], [7, 8]]],
        cb_latitude = \<lparr>co_var_name = Some ''latitude'', co_points = [1, 0],
                        co_dtype = ''float32'', co_bounds = None\<rparr>,
        cb_longitude = \<lparr>co_var_name = Some ''longitude'', co_points = [0, 1],
                         co_dtype = ''float32'', co_bounds = None\<rparr>,
        cb_time = \<lparr>co_var_name = Some ''time'', co_points = [0, 31],
                    co_dtype = ''int32'', co_bounds = None\<rparr>\<rparr>"
  have h1: "co_bounds (cb_latitude ?cube) = None" by simp
  have h2: "2 \<le> length (co_points (cb_latitude ?cube))" by simp
  have h3: "co_bounds (cb_longitude ?cube) = None" by simp
  have h4: "2 \<le> length (co_points (cb_longitude ?cube))" by simp
  have h5: "co_bounds (cb_time ?cube) = None" by simp
  have h6: "2 \<le> length (co_points (cb_time ?cube))" by simp
  have h7: "\<And>c. ipython_embed ?lib c = Inr c" by simp
  have h8: "converter ?lib (cb_units ?cube) (def_units ?def) = Inr (\<lambda>x. x)" by simp
  from extract_variable_normalized [OF h1 h2 h3 h4 h5 h6 h7 h8]
  show ?thesis by auto
qed

text \<open>
  Claim C3 as it is stated fails. For a definition whose standard name is not a valid
  standard name (here the empty one) the ValueError is caught, and the cube that is
  saved keeps the standard name of the input, here
  \<open>surface_net_upward_longwave_flux\<close>, which is not the one of the definition. And the
  latitude of this input increases, from 0 to 1: it is reversed all the same, and the
  latitude of the cube that is saved decreases, from 1 to 0.
\<close>

theorem extract_variable_counterexample:
  "map_sum id cb_standard_name
     (extract_variable
       \<lparr>valid_standard_name = (\<lambda>s. s \<in> set [''air_temperature'',
                                                 ''surface_net_upward_longwave_flux'']),
        to_float32 = (\<lambda>x. x), to_float64 = (\<lambda>x. x),
        guess = map (\<lambda>p. (p - 1 / 2, p + 1 / 2)),
        converter = (\<lambda>a b. if a = b then Inr (\<lambda>x. x) else Inl ValueError),
        ipython_embed = Inr\<rparr>
       \<lparr>def_short_name = ''rlns'', def_standard_name = '''',
        def_long_name = ''Surface Net downward Longwave Radiation'',
        def_units = ''W m-2''\<rparr>
       \<lparr>cb_var_name = Some ''str'', cb_standard_name = Some ''surface_net_upward_longwave_flux'',
        cb_long_name = Some ''Surface net thermal radiation'', cb_dtype = ''int16'', cb_units = ''W m-2'',
        cb_data = [[[1, 2], [3, 4]], [[5, 6], [7, 8]]],
        cb_latitude = \<lparr>co_var_name = Some ''latitude'', co_points = [0, 1],
                        co_dtype = ''float32'', co_bounds = None\<rparr>,
        cb_longitude = \<lparr>co_var_name = Some ''longitude'', co_points = [0, 1],
                         co_dtype = ''float32'', co_bounds = None\<rparr>,
        cb_time = \<lparr>co_var_name = Some ''time'', co_points = [0, 31],
                    co_dtype = ''int32'', co_bounds = None\<rparr>\<rparr>)
    = Inr (Some ''surface_net_upward_longwave_flux'')
   \<and> Some ''surface_net_upward_longwave_flux''
      \<noteq> Some (def_standard_name
       \<lparr>def_short_name = ''rlns'', def_standard_name = '''',
        def_long_name = ''Surface Net downward Longwave Radiation'',
        def_units = ''W m-2''\<rparr>)
   \<and> map_sum id (co_points \<circ> cb_latitude)
     (extract_variable
       \<lparr>valid_standard_name = (\<lambda>s. s \<in> set [''air_temperature'',
                                                 ''surface_net_upward_longwave_flux'']),
        to_float32 = (\<lambda>x. x), to_float64 = (\<lambda>x. x),
        guess = map (\<lambda>p. (p - 1 / 2, p + 1 / 2)),
        converter = (\<lambda>a b. if a = b then Inr (\<lambda>x. x) else Inl ValueError),
        ipython_embed = Inr\<rparr>
       \<lparr>def_short_name = ''rlns'', def_standard_name = '''',
        def_long_name = ''Surface Net downward Longwave Radiation'',
        def_units = ''W m-2''\<rparr>
       \<lparr>cb_var_name = Some ''str'', cb_standard_name = Some ''surface_net_upward_longwave_flux'',
        cb_long_name = Some ''Surface net thermal radiation'', cb_dtype = ''int16'', cb_units = ''W m-2'',
        cb_data = [[[1, 2], [3, 4]], [[5, 6], [7, 8]]],
        cb_latitude = \<lparr>co_var_name = Some ''latitude'', co_points = [0, 1],
                        co_dtype = ''float32'', co_bounds = None\<rparr>,
        cb_longitude = \<lparr>co_var_name = Some ''longitude'', co_points = [0, 1],
                         co_dtype = ''float32'', co_bounds = None\<rparr>,
        cb_time = \<lparr>co_var_name = Some ''time'', co_points = [0, 31],
                    co_dtype = ''int32'', co_bounds = None\<rparr>\<rparr>)
    = Inr [1, 0]
   \<and> map_sum id (sorted_wrt (<) \<circ> co_points \<circ> cb_latitude)
     (extract_variable
       \<lparr>valid_standard_name = (\<lambda>s. s \<in> set [''air_temperature'',
                                                 ''surface_net_upward_longwave_flux'']),
        to_float32 = (\<lambda>x. x), to_float64 = (\<lambda>x. x),
        guess = map (\<lambda>p. (p - 1 / 2, p + 1 / 2)),
        converter = (\<lambda>a b. if a = b then Inr (\<lambda>x. x) else Inl ValueError),
        ipython_embed = Inr\<rparr>
       \<lparr>def_short_name = ''rlns'', def_standard_name = '''',
        def_long_name = ''Surface Net downward Longwave Radiation'',
        def_units = ''W m-2''\<rparr>
       \<lparr>cb_var_name = Some ''str'', cb_standard_name = Some ''surface_net_upward_longwave_flux'',
        cb_long_name = Some ''Surface net thermal radiation'', cb_dtype = ''int16'', cb_units = ''W m-2'',
        cb_data = [[[1, 2], [3, 4]], [[5, 6], [7, 8]]],
        cb_latitude = \<lparr>co_var_name = Some ''latitude'', co_points = [0, 1],
                        co_dtype = ''float32'', co_bounds = None\<rparr>,
        cb_longitude = \<lparr>co_var_name = Some ''longitude'', co_points = [0, 1],
                         co_dtype = ''float32'', co_bounds = None\<rparr>,
        cb_time = \<lparr>co_var_name = Some ''time'', co_points = [0, 31],
                    co_dtype = ''int32'', co_bounds = None\<rparr>\<rparr>)
    = Inr False"
  by (simp add: extract_variable_def Let_def fix_coord_def convert_units_def
        reverse_latitude_def)

section \<open>Properties of the powers of units\<close>



































end
